theory Spec2Isabelle
  imports Main "HOL-Library.AList" "HOL-Library.Sublist"
begin

section \<open>Data model of the builder (lambda-at-edge/src/build.ts)\<close>

text \<open>
  JavaScript scalars as far as the builder reads them. Objects whose keys matter are
  association lists in insertion order: \<open>AList.update k v o\<close> is the assignment
  \<open>o[k] = v\<close> (the value is replaced in place when the key exists, the key is appended
  otherwise), \<open>map fst o\<close> is \<open>Object.keys(o)\<close> and \<open>map_of o k\<close> is the read \<open>o[k]\<close>,
  \<open>None\<close> standing for \<open>undefined\<close>. (Keys are route paths and file names, never
  canonical array indices, which JavaScript would enumerate first.)
\<close>

datatype jsval = JUndefined | JNull | JBool bool | JNum int | JStr string

text \<open>
  The entry of a dynamic route: its field \<open>file\<close> is \<open>pageFile\<close> here (\<open>file\<close> is a keyword of
  Isabelle).
\<close>

record DynamicEntry =
  pageFile :: string
  regex :: string

record PageGroup =
  dynamic :: "(string \<times> DynamicEntry) list"
  nonDynamic :: "(string \<times> string) list"

record Pages =
  ssr :: PageGroup
  html :: PageGroup

record OriginRequestDefaultHandlerManifest =
  buildId :: string
  logLambdaExecutionTimes :: bool
  pages :: Pages
  publicFiles :: "(string \<times> string) list"
  trailingSlash :: jsval

record OriginRequestApiHandlerManifest =
  apis :: PageGroup

record RedirectData =
  source :: string
  destination :: string
  statusCode :: int

record RoutesManifest =
  basePath :: string
  redirects :: "RedirectData list"
  otherFields :: "(string \<times> jsval) list"

text \<open>An entry of the prerender manifest is an object, hence truthy.\<close>

record SsgRoute =
  dataRoute :: string

record PrerenderManifest =
  routes :: "(string \<times> SsgRoute) list option"

text \<open>
  What \<open>require("next.config.js")\<close> yields: a value that is not callable, or a producer
  function of the phase and an options object. Of an object only the field
  \<open>trailingSlash\<close> is read (\<open>JUndefined\<close> when the object has no such field); \<open>CPrimitive\<close>
  stands for every value that is neither an object nor \<open>null\<close> nor \<open>undefined\<close>.
\<close>

record NextConfigObject =
  cfgTrailingSlash :: jsval

datatype ConfigValue = CObject NextConfigObject | CNull | CUndefined | CPrimitive

datatype NextConfig =
    Plain ConfigValue
  | Producer "string \<Rightarrow> (string \<times> jsval) list \<Rightarrow> ConfigValue"

subsection \<open>Files\<close>

text \<open>
  A path is the list of its segments; \<open>path.join\<close> appends. A file holds text or the
  JSON (or module) of one of the values above. The file system lists every file and
  every directory with its path.
\<close>

type_synonym path = "string list"

datatype content =
    Text string
  | PagesManifestFile "(string \<times> string) list"
  | PrerenderManifestFile PrerenderManifest
  | RoutesManifestFile RoutesManifest
  | DefaultManifestFile OriginRequestDefaultHandlerManifest
  | ApiManifestFile OriginRequestApiHandlerManifest
  | NextConfigModule NextConfig

datatype node = File content | Dir

type_synonym fs = "(path \<times> node) list"

datatype error =
    Rejected string
  | ENOENT path
  | ENOTDIR path
  | EISDIR path
  | InvalidJson path
  | ModuleNotFound path
  | TypeError string
  | ProcessFailed string

definition join :: "path \<Rightarrow> path \<Rightarrow> path" where
  "join a b = a @ b"

definition pathExists :: "fs \<Rightarrow> path \<Rightarrow> bool" where
  "pathExists fs p = (map_of fs p \<noteq> None)"

definition readFile :: "fs \<Rightarrow> path \<Rightarrow> error + content" where
  "readFile fs p =
     (case map_of fs p of
        None \<Rightarrow> Inl (ENOENT p)
      | Some Dir \<Rightarrow> Inl (EISDIR p)
      | Some (File c) \<Rightarrow> Inr c)"

subsection \<open>The library functions the builder imports\<close>

text \<open>
  The modules under \<open>./lib\<close> and \<open>./routing\<close> are not part of the sources at hand; the
  builder is modelled for any implementation of them. The same record holds what the
  builder takes from its environment: \<open>execa\<close> is the run of the build command (with its
  arguments, working directory and environment) as a change of the file system,
  \<open>nodeFileTrace\<close> returns the traced file list and, per file, the type of its reason,
  \<open>defaultHandlerJs\<close> and \<open>apiHandlerJs\<close> are the paths \<open>require.resolve\<close> finds for the two
  handlers, and \<open>processCwd\<close> is \<open>process.cwd()\<close>. \<open>createServerlessConfig\<close> returns the
  changed file system and the function \<open>restoreUserConfig\<close>. Where a property of the build
  options is passed on to \<open>createServerlessConfig\<close> and \<open>execa\<close>, \<open>None\<close> is the value
  \<open>undefined\<close>.
\<close>

record Lib =
  isDynamicRoute :: "string \<Rightarrow> bool"
  getSortedRoutes :: "string list \<Rightarrow> string list"
  expressifyDynamicRoute :: "string \<Rightarrow> string"
  pathToRegexStr :: "string \<Rightarrow> string"
  isTrailingSlashRedirect :: "RedirectData \<Rightarrow> string \<Rightarrow> bool"
  pathToPosix :: "string \<Rightarrow> string"
  normalizeNodeModules :: "string \<Rightarrow> string"
  createServerlessConfig ::
    "path option \<Rightarrow> path \<Rightarrow> bool option \<Rightarrow> fs \<Rightarrow> error + (fs \<times> (fs \<Rightarrow> error + fs))"
  execa ::
    "string option \<Rightarrow> string list option \<Rightarrow> path option \<Rightarrow> (string \<times> string) list option
       \<Rightarrow> fs \<Rightarrow> error + fs"
  nodeFileTrace :: "fs \<Rightarrow> path list \<Rightarrow> error + (string list \<times> (string \<Rightarrow> string option))"
  defaultHandlerJs :: path
  apiHandlerJs :: path
  processCwd :: path

text \<open>
  The type \<open>BuildOptions\<close>: every property is optional, so that an object has it with a
  value, has it with the value \<open>undefined\<close>, or does not have it; reading it gives
  \<open>undefined\<close> (\<open>None\<close>) in the last two cases. The property \<open>cwd\<close> is \<open>cwdOpt\<close> and
  \<open>logLambdaExecutionTimes\<close> is \<open>logLambdaExecutionTimesOpt\<close> here (the second name is a
  field of the manifest as well).
\<close>

datatype 'a optional = Absent | Undefined | Value 'a

definition valueOf :: "'a optional \<Rightarrow> 'a option" where
  "valueOf p = (case p of Value v \<Rightarrow> Some v | _ \<Rightarrow> None)"

record BuildOptions =
  args :: "string list optional"
  cwdOpt :: "path optional"
  env :: "(string \<times> string) list optional"
  cmd :: "string optional"
  useServerlessTraceTarget :: "bool optional"
  logLambdaExecutionTimesOpt :: "bool optional"
  handler :: "string optional"

text \<open>
  The object \<open>defaultBuildOptions\<close> belongs to the module and is shared by all builders:
  \<open>build\<close> assigns to it. Its value is therefore a part of the state, which the methods
  below take as the argument \<open>defaults\<close>; the constant is its value when the module is
  loaded. The field \<open>buildOptions\<close> of a builder is a reference: \<open>None\<close> is the module's
  object (no options were given to the constructor), \<open>Some bo\<close> an object of the caller,
  which the builder only reads.
\<close>

record Builder =
  nextConfigDir :: path
  dotNextDir :: path
  serverlessDir :: path
  outputDir :: path
  buildOptions :: "BuildOptions option"

definition defaultBuildOptions :: "Lib \<Rightarrow> BuildOptions" where
  "defaultBuildOptions L =
     \<lparr>args = Value [], cwdOpt = Value (processCwd L), env = Value [],
      cmd = Value ''./node_modules/.bin/next'', useServerlessTraceTarget = Value False,
      logLambdaExecutionTimesOpt = Value False, handler = Absent\<rparr>"

definition newBuilder :: "path \<Rightarrow> path \<Rightarrow> BuildOptions option \<Rightarrow> Builder" where
  "newBuilder configDir outDir opts =
     \<lparr>nextConfigDir = configDir,
      dotNextDir = join configDir [''.next''],
      serverlessDir = join (join configDir [''.next'']) [''serverless''],
      outputDir = outDir,
      buildOptions = opts\<rparr>"

text \<open>What \<open>this.buildOptions\<close> reads while the module's object has the value \<open>defaults\<close>.\<close>

definition thisBuildOptions :: "BuildOptions \<Rightarrow> Builder \<Rightarrow> BuildOptions" where
  "thisBuildOptions defaults b = (case buildOptions b of None \<Rightarrow> defaults | Some bo \<Rightarrow> bo)"

text \<open>
  \<open>Object.assign(target, src)\<close>: every property that \<open>src\<close> has, also one with the value
  \<open>undefined\<close>, replaces that of \<open>target\<close>.
\<close>

definition assignProperty :: "'a optional \<Rightarrow> 'a optional \<Rightarrow> 'a optional" where
  "assignProperty t s = (case s of Absent \<Rightarrow> t | _ \<Rightarrow> s)"

definition assign :: "BuildOptions \<Rightarrow> BuildOptions \<Rightarrow> BuildOptions" where
  "assign target src =
     \<lparr>args = assignProperty (args target) (args src),
      cwdOpt = assignProperty (cwdOpt target) (cwdOpt src),
      env = assignProperty (env target) (env src),
      cmd = assignProperty (cmd target) (cmd src),
      useServerlessTraceTarget =
        assignProperty (useServerlessTraceTarget target) (useServerlessTraceTarget src),
      logLambdaExecutionTimesOpt =
        assignProperty (logLambdaExecutionTimesOpt target) (logLambdaExecutionTimesOpt src),
      handler = assignProperty (handler target) (handler src)\<rparr>"

section \<open>readPagesManifest\<close>

definition pagesManifestNotFound :: string where
  "pagesManifestNotFound =
     ''pages-manifest not found. Check if `next.config.js` target is set to ''
     @ [CHR 0x27] @ ''serverless'' @ [CHR 0x27]"

definition sortPagesManifest ::
  "Lib \<Rightarrow> (string \<times> string) list \<Rightarrow> (string \<times> string option) list" where
  "sortPagesManifest L pagesManifest =
     (let pagesManifestWithoutDynamicRoutes =
            fold (\<lambda>route acc.
                    if isDynamicRoute L route then acc
                    else AList.update route (map_of pagesManifest route) acc)
                 (map fst pagesManifest) [];
          dynamicRoutedPages = filter (isDynamicRoute L) (map fst pagesManifest);
          sortedDynamicRoutedPages = getSortedRoutes L dynamicRoutedPages
      in fold (\<lambda>route sortedPagesManifest.
                 AList.update route (map_of pagesManifest route) sortedPagesManifest)
              sortedDynamicRoutedPages pagesManifestWithoutDynamicRoutes)"

text \<open>
  The result maps a route to its page file; a route the sorter returns that the manifest
  does not have is stored with the value \<open>undefined\<close> (\<open>None\<close>).
\<close>

definition readPagesManifest ::
  "Lib \<Rightarrow> Builder \<Rightarrow> fs \<Rightarrow> error + (string \<times> string option) list" where
  "readPagesManifest L b fs =
     (let path = join (serverlessDir b) [''pages-manifest.json''];
          hasServerlessPageManifest = pathExists fs path
      in if \<not> hasServerlessPageManifest then Inl (Rejected pagesManifestNotFound)
         else (case readFile fs path of
                 Inl e \<Rightarrow> Inl e
               | Inr (PagesManifestFile pagesManifest) \<Rightarrow>
                   Inr (sortPagesManifest L pagesManifest)
               | Inr _ \<Rightarrow> Inl (InvalidJson path)))"

section \<open>Path strings and file operations (node's path, fs-extra)\<close>

fun joinWith :: "string \<Rightarrow> string list \<Rightarrow> string" where
  "joinWith sep [] = []"
| "joinWith sep [x] = x"
| "joinWith sep (x # y # zs) = x @ sep @ joinWith sep (y # zs)"

fun splitOn :: "char \<Rightarrow> string \<Rightarrow> string list" where
  "splitOn c [] = [[]]"
| "splitOn c (x # xs) =
     (if x = c then [] # splitOn c xs
      else (case splitOn c xs of [] \<Rightarrow> [[x]] | w # ws \<Rightarrow> (x # w) # ws))"

text \<open>The string of an absolute path, in the host's (POSIX) notation.\<close>

definition pathString :: "path \<Rightarrow> string" where
  "pathString p = (if p = [] then ''/'' else concat (map (\<lambda>s. ''/'' @ s) p))"

text \<open>\<open>path.join(base, s)\<close> for a path string \<open>s\<close>: empty and \<open>.\<close> segments vanish, \<open>..\<close> steps up.\<close>

definition joinStr :: "path \<Rightarrow> string \<Rightarrow> path" where
  "joinStr base s =
     fold (\<lambda>seg acc. if seg = ''..'' then butlast acc else acc @ [seg])
          (filter (\<lambda>w. w \<noteq> [] \<and> w \<noteq> ''.'') (splitOn CHR ''/'' s)) base"

definition resolve :: "Lib \<Rightarrow> string \<Rightarrow> path" where
  "resolve L s = (if prefix ''/'' s then joinStr [] s else joinStr (processCwd L) s)"

fun relativePath :: "path \<Rightarrow> path \<Rightarrow> path" where
  "relativePath (a # as) (b # bs) =
     (if a = b then relativePath as bs else replicate (length (a # as)) ''..'' @ (b # bs))"
| "relativePath as bs = replicate (length as) ''..'' @ bs"

definition relative :: "path \<Rightarrow> path \<Rightarrow> string" where
  "relative from to = joinWith ''/'' (relativePath from to)"

definition basename :: "string \<Rightarrow> string" where
  "basename s = rev (takeWhile (\<lambda>c. c \<noteq> CHR ''/'') (rev s))"

text \<open>
  \<open>path.extname\<close> of a path string without trailing slash: the part of the base name from
  its last dot on; empty when there is no dot, when the only dot is the first character,
  and for the base name \<open>..\<close>.
\<close>

definition extname :: "string \<Rightarrow> string" where
  "extname s =
     (let b = basename s;
          e = rev (takeWhile (\<lambda>c. c \<noteq> CHR ''.'') (rev b))
      in if CHR ''.'' \<notin> set b then []
         else if length b = Suc (length e) then []
         else if b = ''..'' then []
         else CHR ''.'' # e)"

definition andThen :: "error + 'a \<Rightarrow> ('a \<Rightarrow> error + 'b) \<Rightarrow> error + 'b" where
  "andThen m f = (case m of Inl e \<Rightarrow> Inl e | Inr x \<Rightarrow> f x)"

text \<open>
  \<open>Promise.all\<close> over file operations with distinct targets: the operations in the order
  of the array; the first failure fails the whole.
\<close>

fun runAll :: "(fs \<Rightarrow> error + fs) list \<Rightarrow> fs \<Rightarrow> error + fs" where
  "runAll [] fs = Inr fs"
| "runAll (operation # ops) fs =
     (case operation fs of Inl e \<Rightarrow> Inl e | Inr fs' \<Rightarrow> runAll ops fs')"

definition isFileNode :: "node option \<Rightarrow> bool" where
  "isFileNode n = (case n of Some (File _) \<Rightarrow> True | _ \<Rightarrow> False)"

definition isDirNode :: "node option \<Rightarrow> bool" where
  "isDirNode n = (case n of Some Dir \<Rightarrow> True | _ \<Rightarrow> False)"

definition mkdirs :: "path \<Rightarrow> fs \<Rightarrow> error + fs" where
  "mkdirs d fs =
     (if list_ex (\<lambda>p. isFileNode (map_of fs p)) (prefixes d) then Inl (ENOTDIR d)
      else Inr (fold (\<lambda>p acc. if map_of acc p = None then AList.update p Dir acc else acc)
                     (prefixes d) fs))"

definition writeFile :: "path \<Rightarrow> content \<Rightarrow> fs \<Rightarrow> error + fs" where
  "writeFile p c fs =
     (if \<not> isDirNode (map_of fs (butlast p)) then Inl (ENOENT p)
      else if isDirNode (map_of fs p) then Inl (EISDIR p)
      else Inr (AList.update p (File c) fs))"

definition remove :: "path \<Rightarrow> fs \<Rightarrow> fs" where
  "remove p fs = filter (\<lambda>(q, n). \<not> prefix p q) fs"

definition readdir :: "fs \<Rightarrow> path \<Rightarrow> error + string list" where
  "readdir fs d =
     (case map_of fs d of
        None \<Rightarrow> Inl (ENOENT d)
      | Some (File c) \<Rightarrow> Inl (ENOTDIR d)
      | Some Dir \<Rightarrow>
          Inr (remdups (map (\<lambda>(q, n). q ! length d)
                            (filter (\<lambda>(q, n). strict_prefix d q) fs))))"

definition emptyDir :: "path \<Rightarrow> fs \<Rightarrow> error + fs" where
  "emptyDir d fs =
     (case readdir fs d of
        Inl e \<Rightarrow> mkdirs d fs
      | Inr items \<Rightarrow> Inr (fold (\<lambda>item. remove (join d [item])) items fs))"

text \<open>
  \<open>fse.copy(src, dst, {filter})\<close>: fails when the source is missing; copies nothing when the
  filter rejects the source; otherwise creates the parents of the target and copies the
  source and, below a directory, every entry that the filter accepts together with all
  directories between the source and the entry. The filter sees the source path.
\<close>

definition copyEntries :: "(path \<Rightarrow> bool) \<Rightarrow> path \<Rightarrow> path \<Rightarrow> fs \<Rightarrow> fs \<Rightarrow> fs" where
  "copyEntries flt src dst fs fs1 =
     fold (\<lambda>q acc. case map_of fs q of
                      None \<Rightarrow> acc
                    | Some m \<Rightarrow> AList.update (dst @ drop (length src) q) m acc)
          (filter (\<lambda>q. prefix src q \<and>
                        list_all flt (map (\<lambda>k. take k q) [length src ..< Suc (length q)]))
                  (map fst fs))
          fs1"

definition copy :: "(path \<Rightarrow> bool) \<Rightarrow> path \<Rightarrow> path \<Rightarrow> fs \<Rightarrow> error + fs" where
  "copy flt src dst fs =
     (case map_of fs src of
        None \<Rightarrow> Inl (ENOENT src)
      | Some n \<Rightarrow>
          if \<not> flt src then Inr fs
          else if isFileNode (Some n) \<and> isDirNode (map_of fs dst) then Inl (EISDIR dst)
          else if isDirNode (Some n) \<and> isFileNode (map_of fs dst) then Inl (ENOTDIR dst)
          else andThen (mkdirs (butlast dst) fs)
                 (\<lambda>fs1. Inr (copyEntries flt src dst fs fs1)))"

text \<open>
  Modelled from the spec: \<open>getAllFiles\<close> (\<open>./lib/getAllFilesInDirectory\<close>, not among the
  sources) enumerates the files recursively under a root directory. It lists the
  directory, which fails when the root is missing or is a file.
\<close>

definition getAllFiles :: "fs \<Rightarrow> path \<Rightarrow> error + path list" where
  "getAllFiles fs root =
     (case map_of fs root of
        None \<Rightarrow> Inl (ENOENT root)
      | Some (File c) \<Rightarrow> Inl (ENOTDIR root)
      | Some Dir \<Rightarrow>
          Inr (map fst (filter (\<lambda>(q, n). prefix root q \<and> isFileNode (Some n)) fs)))"

section \<open>The builder's methods\<close>

definition DEFAULT_LAMBDA_CODE_DIR :: string where
  "DEFAULT_LAMBDA_CODE_DIR = ''default-lambda''"

definition API_LAMBDA_CODE_DIR :: string where
  "API_LAMBDA_CODE_DIR = ''api-lambda''"

definition readPublicFiles :: "Builder \<Rightarrow> fs \<Rightarrow> error + string list" where
  "readPublicFiles b fs =
     (let dirExists = pathExists fs (join (nextConfigDir b) [''public''])
      in if dirExists
         then andThen (getAllFiles fs (join (nextConfigDir b) [''public'']))
                (\<lambda>files. Inr (map (\<lambda>e. joinWith ''/'' (drop 2 e))
                               (map (\<lambda>e. [] # drop (length (nextConfigDir b)) e) files)))
         else Inr [])"

subsection \<open>isPrerenderedJSFile, processAndCopyRoutesManifest\<close>

definition isPrerenderedJSFile :: "PrerenderManifest \<Rightarrow> string \<Rightarrow> bool" where
  "isPrerenderedJSFile prerenderManifest relativePageFile =
     (if extname relativePageFile = ''.js''
      then (let pageRoute = take (length relativePageFile - 3) relativePageFile;
                pageRoute = (if prefix ''/'' pageRoute then pageRoute else ''/'' @ pageRoute);
                pageRoute = (if pageRoute = ''/index'' then ''/'' else pageRoute)
            in (case routes prerenderManifest of
                  None \<Rightarrow> False
                | Some rs \<Rightarrow> map_of rs pageRoute \<noteq> None))
      else False)"

definition processRoutesManifest :: "Lib \<Rightarrow> RoutesManifest \<Rightarrow> RoutesManifest" where
  "processRoutesManifest L routesManifest =
     routesManifest\<lparr>redirects :=
       filter (\<lambda>redirect. \<not> isTrailingSlashRedirect L redirect (basePath routesManifest))
              (redirects routesManifest)\<rparr>"

definition processAndCopyRoutesManifest :: "Lib \<Rightarrow> path \<Rightarrow> path \<Rightarrow> fs \<Rightarrow> error + fs" where
  "processAndCopyRoutesManifest L src dest fs =
     (case readFile fs src of
        Inr (RoutesManifestFile routesManifest) \<Rightarrow>
          writeFile dest (RoutesManifestFile (processRoutesManifest L routesManifest)) fs
      | Inr other \<Rightarrow> Inl (InvalidJson src)
      | Inl e \<Rightarrow> Inl (ModuleNotFound src))"

subsection \<open>copyLambdaHandlerDependencies, buildDefaultLambda, buildApiLambda\<close>

definition copyLambdaHandlerDependencies ::
  "Lib \<Rightarrow> Builder \<Rightarrow> string list \<Rightarrow> (string \<Rightarrow> string option) \<Rightarrow> string
     \<Rightarrow> (fs \<Rightarrow> error + fs) list" where
  "copyLambdaHandlerDependencies L b fileList reasons handlerDirectory =
     map (\<lambda>filePath.
            let resolvedFilePath = resolve L filePath;
                dst = normalizeNodeModules L (relative (serverlessDir b) resolvedFilePath)
            in copy (\<lambda>p. True) resolvedFilePath
                 (joinStr (join (outputDir b) [handlerDirectory]) dst))
         (filter (\<lambda>file. (reasons file = None \<or> reasons file \<noteq> Some ''initial'')
                         \<and> file \<noteq> ''package.json'')
                 fileList)"

text \<open>The filter of the copy of the pages directory into the page-rendering bundle.\<close>

definition pagesFilter :: "Lib \<Rightarrow> Builder \<Rightarrow> PrerenderManifest \<Rightarrow> bool \<Rightarrow> path \<Rightarrow> bool" where
  "pagesFilter L b prerenderManifest hasAPIRoutes file =
     (let isNotPrerenderedHTMLPage = (extname (pathString file) \<noteq> ''.html'');
          isNotStaticPropsJSONFile = (extname (pathString file) \<noteq> ''.json'');
          isNotApiPage = (\<not> sublist ''pages/api'' (pathToPosix L (pathString file)));
          isNotExcludedJSFile =
            (hasAPIRoutes \<or>
             \<not> isPrerenderedJSFile prerenderManifest
                 (relative (join (serverlessDir b) [''pages'']) file))
      in isNotApiPage \<and> isNotPrerenderedHTMLPage \<and> isNotStaticPropsJSONFile
         \<and> isNotExcludedJSFile)"

definition handlerCopy :: "BuildOptions \<Rightarrow> Builder \<Rightarrow> string \<Rightarrow> fs \<Rightarrow> error + fs" where
  "handlerCopy defaults b codeDir =
     (case valueOf (handler (thisBuildOptions defaults b)) of
        None \<Rightarrow> Inr
      | Some h \<Rightarrow>
          if h = [] then Inr
          else copy (\<lambda>p. True) (joinStr (nextConfigDir b) h)
                 (joinStr (join (outputDir b) [codeDir]) h))"

definition buildDefaultLambda ::
  "Lib \<Rightarrow> BuildOptions \<Rightarrow> Builder \<Rightarrow> OriginRequestDefaultHandlerManifest \<Rightarrow> fs \<Rightarrow> error + fs" where
  "buildDefaultLambda L defaults b buildManifest fs =
     andThen
       (if valueOf (useServerlessTraceTarget (thisBuildOptions defaults b)) = Some True
        then (let ignoreAppAndDocumentPages =
                    (\<lambda>page. basename page \<noteq> ''_app.js'' \<and> basename page \<noteq> ''_document.js'');
                  allSsrPages =
                    filter ignoreAppAndDocumentPages
                      (map snd (nonDynamic (ssr (pages buildManifest)))
                       @ map (\<lambda>entry. pageFile (snd entry)) (dynamic (ssr (pages buildManifest))));
                  ssrPages = map (\<lambda>pf. joinStr (serverlessDir b) pf) allSsrPages
              in andThen (nodeFileTrace L fs ssrPages)
                   (\<lambda>(fileList, reasons).
                      Inr (copyLambdaHandlerDependencies L b fileList reasons
                             DEFAULT_LAMBDA_CODE_DIR)))
        else Inr [])
       (\<lambda>copyTraces.
          case readFile fs (join (dotNextDir b) [''prerender-manifest.json'']) of
            Inl e \<Rightarrow> Inl (ModuleNotFound (join (dotNextDir b) [''prerender-manifest.json'']))
          | Inr (PrerenderManifestFile prerenderManifest) \<Rightarrow>
              (let hasAPIRoutes = pathExists fs (joinStr (serverlessDir b) ''pages/api'')
               in runAll
                    (copyTraces @
                     [handlerCopy defaults b DEFAULT_LAMBDA_CODE_DIR,
                      copy (\<lambda>p. True) (defaultHandlerJs L)
                        (join (outputDir b) [DEFAULT_LAMBDA_CODE_DIR, ''index.js'']),
                      writeFile (join (outputDir b) [DEFAULT_LAMBDA_CODE_DIR, ''manifest.json''])
                        (DefaultManifestFile buildManifest),
                      copy (pagesFilter L b prerenderManifest hasAPIRoutes)
                        (join (serverlessDir b) [''pages''])
                        (join (outputDir b) [DEFAULT_LAMBDA_CODE_DIR, ''pages'']),
                      copy (\<lambda>p. True) (join (dotNextDir b) [''prerender-manifest.json''])
                        (join (outputDir b) [DEFAULT_LAMBDA_CODE_DIR, ''prerender-manifest.json'']),
                      processAndCopyRoutesManifest L
                        (join (dotNextDir b) [''routes-manifest.json''])
                        (join (outputDir b) [DEFAULT_LAMBDA_CODE_DIR, ''routes-manifest.json''])])
                    fs)
          | Inr other \<Rightarrow> Inl (InvalidJson (join (dotNextDir b) [''prerender-manifest.json''])))"

definition buildApiLambda ::
  "Lib \<Rightarrow> BuildOptions \<Rightarrow> Builder \<Rightarrow> OriginRequestApiHandlerManifest \<Rightarrow> fs \<Rightarrow> error + fs" where
  "buildApiLambda L defaults b apiBuildManifest fs =
     andThen
       (if valueOf (useServerlessTraceTarget (thisBuildOptions defaults b)) = Some True
        then (let allApiPages =
                    map snd (nonDynamic (apis apiBuildManifest))
                    @ map (\<lambda>entry. pageFile (snd entry)) (dynamic (apis apiBuildManifest));
                  apiPages = map (\<lambda>pf. joinStr (serverlessDir b) pf) allApiPages
              in andThen (nodeFileTrace L fs apiPages)
                   (\<lambda>(fileList, reasons).
                      Inr (copyLambdaHandlerDependencies L b fileList reasons
                             API_LAMBDA_CODE_DIR)))
        else Inr [])
       (\<lambda>copyTraces.
          runAll
            (copyTraces @
             [handlerCopy defaults b API_LAMBDA_CODE_DIR,
              copy (\<lambda>p. True) (apiHandlerJs L)
                (join (outputDir b) [API_LAMBDA_CODE_DIR, ''index.js'']),
              copy (\<lambda>p. True) (joinStr (serverlessDir b) ''pages/api'')
                (joinStr (join (outputDir b) [API_LAMBDA_CODE_DIR]) ''pages/api''),
              writeFile (join (outputDir b) [API_LAMBDA_CODE_DIR, ''manifest.json''])
                (ApiManifestFile apiBuildManifest),
              copy (\<lambda>p. True) (join (dotNextDir b) [''routes-manifest.json''])
                (join (outputDir b) [API_LAMBDA_CODE_DIR, ''routes-manifest.json''])])
            fs)"

subsection \<open>prepareBuildManifests\<close>

record PageBuckets =
  ssrPages :: PageGroup
  htmlPages :: PageGroup
  apiPages :: PageGroup

definition isHtmlPage :: "string \<Rightarrow> bool" where
  "isHtmlPage path = suffix ''.html'' path"

definition isApiPage :: "string \<Rightarrow> bool" where
  "isApiPage path = prefix ''pages/api'' path"

text \<open>The body of the loop over the entries of the pages manifest.\<close>

definition classifyPage :: "Lib \<Rightarrow> string \<Rightarrow> string \<Rightarrow> PageBuckets \<Rightarrow> PageBuckets" where
  "classifyPage L route pf st =
     (let dynamicRoute = isDynamicRoute L route;
          expressRoute = (if dynamicRoute then Some (expressifyDynamicRoute L route) else None)
      in if isHtmlPage pf then
           (if dynamicRoute then
              (let route = the expressRoute
               in st\<lparr>htmlPages := (htmlPages st)\<lparr>dynamic :=
                       AList.update route \<lparr>pageFile = pf, regex = pathToRegexStr L route\<rparr>
                         (dynamic (htmlPages st))\<rparr>\<rparr>)
            else st\<lparr>htmlPages := (htmlPages st)\<lparr>nonDynamic :=
                       AList.update route pf (nonDynamic (htmlPages st))\<rparr>\<rparr>)
         else if isApiPage pf then
           (if dynamicRoute then
              (let route = the expressRoute
               in st\<lparr>apiPages := (apiPages st)\<lparr>dynamic :=
                       AList.update route \<lparr>pageFile = pf, regex = pathToRegexStr L route\<rparr>
                         (dynamic (apiPages st))\<rparr>\<rparr>)
            else st\<lparr>apiPages := (apiPages st)\<lparr>nonDynamic :=
                       AList.update route pf (nonDynamic (apiPages st))\<rparr>\<rparr>)
         else if dynamicRoute then
           (let route = the expressRoute
            in st\<lparr>ssrPages := (ssrPages st)\<lparr>dynamic :=
                    AList.update route \<lparr>pageFile = pf, regex = pathToRegexStr L route\<rparr>
                      (dynamic (ssrPages st))\<rparr>\<rparr>)
         else st\<lparr>ssrPages := (ssrPages st)\<lparr>nonDynamic :=
                    AList.update route pf (nonDynamic (ssrPages st))\<rparr>\<rparr>)"

text \<open>
  \<open>Object.entries(pagesManifest).forEach\<close>: an entry whose page file is \<open>undefined\<close> makes
  \<open>isHtmlPage\<close> throw.
\<close>

fun classifyPages ::
  "Lib \<Rightarrow> (string \<times> string option) list \<Rightarrow> PageBuckets \<Rightarrow> error + PageBuckets" where
  "classifyPages L [] st = Inr st"
| "classifyPages L ((route, None) # entries) st =
     Inl (TypeError ''Cannot read property endsWith of undefined'')"
| "classifyPages L ((route, Some pf) # entries) st =
     classifyPages L entries (classifyPage L route pf st)"

definition emptyGroup :: PageGroup where
  "emptyGroup = \<lparr>dynamic = [], nonDynamic = []\<rparr>"

datatype jstype = TObject | TFunction | TOther

fun typeof :: "NextConfig \<Rightarrow> jstype" where
  "typeof (Plain (CObject obj)) = TObject"
| "typeof (Plain CNull) = TObject"
| "typeof (Plain CUndefined) = TOther"
| "typeof (Plain CPrimitive) = TOther"
| "typeof (Producer f) = TFunction"

text \<open>
  The normalised configuration, with the list of the invocations of the configuration
  function (phase and options of each).
\<close>

definition normaliseNextConfig ::
  "NextConfig \<Rightarrow> ConfigValue \<times> (string \<times> (string \<times> jsval) list) list" where
  "normaliseNextConfig nextConfig =
     (if typeof nextConfig = TObject then
        (case nextConfig of Plain v \<Rightarrow> (v, []) | Producer f \<Rightarrow> (CUndefined, []))
      else if typeof nextConfig = TFunction then
        (case nextConfig of
           Producer f \<Rightarrow> (f ''phase-production-server'' [], [(''phase-production-server'', [])])
         | Plain v \<Rightarrow> (CUndefined, []))
      else (CUndefined, []))"

text \<open>\<open>normalisedNextConfig?.trailingSlash ?? false\<close>\<close>

definition trailingSlashOf :: "ConfigValue \<Rightarrow> jsval" where
  "trailingSlashOf normalisedNextConfig =
     (let v = (case normalisedNextConfig of
                 CObject obj \<Rightarrow> cfgTrailingSlash obj
               | CNull \<Rightarrow> JUndefined
               | CUndefined \<Rightarrow> JUndefined
               | CPrimitive \<Rightarrow> JUndefined)
      in if v = JUndefined \<or> v = JNull then JBool False else v)"

record BuildManifests =
  defaultBuildManifest :: OriginRequestDefaultHandlerManifest
  apiBuildManifest :: OriginRequestApiHandlerManifest

definition readBuildId :: "fs \<Rightarrow> path \<Rightarrow> error + string" where
  "readBuildId fs p =
     (case readFile fs p of
        Inl e \<Rightarrow> Inl e
      | Inr (Text s) \<Rightarrow> Inr s
      | Inr other \<Rightarrow> Inl (TypeError ''BUILD_ID is not a text file''))"

definition prepareBuildManifests ::
  "Lib \<Rightarrow> BuildOptions \<Rightarrow> Builder \<Rightarrow> fs
     \<Rightarrow> error + (BuildManifests \<times> (string \<times> (string \<times> jsval) list) list)" where
  "prepareBuildManifests L defaults b fs =
     andThen (readPagesManifest L b fs) (\<lambda>pagesManifest.
     andThen (readBuildId fs (join (dotNextDir b) [''BUILD_ID''])) (\<lambda>buildId.
     andThen (classifyPages L pagesManifest
                \<lparr>ssrPages = emptyGroup, htmlPages = emptyGroup, apiPages = emptyGroup\<rparr>)
       (\<lambda>st.
     andThen (readPublicFiles b fs) (\<lambda>publicFiles.
          let defaultManifest =
                \<lparr>buildId = buildId,
                 logLambdaExecutionTimes =
                   (case valueOf (logLambdaExecutionTimesOpt (thisBuildOptions defaults b)) of
                      None \<Rightarrow> False | Some v \<Rightarrow> v),
                 pages = \<lparr>ssr = ssrPages st, html = htmlPages st\<rparr>,
                 publicFiles = fold (\<lambda>pf m. AList.update (''/'' @ pf) pf m) publicFiles [],
                 trailingSlash = JBool False\<rparr>;
              apiManifest = \<lparr>apis = apiPages st\<rparr>;
              nextConfigPath = join (nextConfigDir b) [''next.config.js'']
          in if pathExists fs nextConfigPath then
               (case readFile fs nextConfigPath of
                  Inr (NextConfigModule nextConfig) \<Rightarrow>
                    (let (normalisedNextConfig, calls) = normaliseNextConfig nextConfig
                     in Inr (\<lparr>defaultBuildManifest =
                                 defaultManifest\<lparr>trailingSlash :=
                                   trailingSlashOf normalisedNextConfig\<rparr>,
                               apiBuildManifest = apiManifest\<rparr>, calls))
                | Inr other \<Rightarrow> Inl (InvalidJson nextConfigPath)
                | Inl e \<Rightarrow> Inl e)
             else Inr (\<lparr>defaultBuildManifest = defaultManifest,
                        apiBuildManifest = apiManifest\<rparr>, [])))))"

subsection \<open>cleanupDotNext, build\<close>

definition cleanupDotNext :: "Builder \<Rightarrow> fs \<Rightarrow> error + fs" where
  "cleanupDotNext b fs =
     (let exists = pathExists fs (dotNextDir b)
      in if exists then
           andThen (readdir fs (dotNextDir b))
             (\<lambda>fileItems.
                Inr (fold (\<lambda>fileItem. remove (join (dotNextDir b) [fileItem]))
                          (filter (\<lambda>fileItem. fileItem \<noteq> ''cache'') fileItems) fs))
         else Inr fs)"

definition hasAPIPages :: "OriginRequestApiHandlerManifest \<Rightarrow> bool" where
  "hasAPIPages apiManifest =
     (length (map fst (nonDynamic (apis apiManifest))) > 0 \<or>
      length (map fst (dynamic (apis apiManifest))) > 0)"

text \<open>
  The first part of \<open>build\<close> after the options are merged: the clean-up, the two empty
  output directories, and the run of the build command between \<open>createServerlessConfig\<close>
  and \<open>restoreUserConfig\<close> (\<open>try\<close> ... \<open>finally\<close>). The argument \<open>merged\<close> is the object that
  \<open>Object.assign\<close> returns, of which \<open>cmd\<close>, \<open>args\<close>, \<open>cwd\<close>, \<open>env\<close> and
  \<open>useServerlessTraceTarget\<close> are taken.
\<close>

definition runNextBuild :: "Lib \<Rightarrow> BuildOptions \<Rightarrow> Builder \<Rightarrow> fs \<Rightarrow> error + fs" where
  "runNextBuild L merged b fs0 =
     andThen (cleanupDotNext b fs0) (\<lambda>fs1.
     andThen (emptyDir (join (outputDir b) [DEFAULT_LAMBDA_CODE_DIR]) fs1) (\<lambda>fs2.
     andThen (emptyDir (join (outputDir b) [API_LAMBDA_CODE_DIR]) fs2) (\<lambda>fs3.
     andThen (createServerlessConfig L (valueOf (cwdOpt merged)) (nextConfigDir b)
                (valueOf (useServerlessTraceTarget merged)) fs3)
       (\<lambda>(fs4, restoreUserConfig).
          case execa L (valueOf (cmd merged)) (valueOf (args merged)) (valueOf (cwdOpt merged))
                 (valueOf (env merged)) fs4 of
            Inl e \<Rightarrow> (case restoreUserConfig fs4 of Inl e' \<Rightarrow> Inl e' | Inr fs' \<Rightarrow> Inl e)
          | Inr fs5 \<Rightarrow> restoreUserConfig fs5))))"

text \<open>
  \<open>Object.assign(defaultBuildOptions, this.buildOptions)\<close> changes the module's object and
  returns it; from then on it has the merged value, also for \<open>this.buildOptions\<close> of a
  builder that was given no options.
\<close>

definition mergedOptions :: "BuildOptions \<Rightarrow> Builder \<Rightarrow> BuildOptions" where
  "mergedOptions defaults b = assign defaults (thisBuildOptions defaults b)"

text \<open>
  \<open>build\<close> returns the value of the module's \<open>defaultBuildOptions\<close> after the run together
  with the outcome.
\<close>

definition build ::
  "Lib \<Rightarrow> BuildOptions \<Rightarrow> Builder \<Rightarrow> bool \<Rightarrow> fs \<Rightarrow> BuildOptions \<times> (error + fs)" where
  "build L defaults b debugMode fs0 =
     (let merged = mergedOptions defaults b
      in (merged,
          andThen (runNextBuild L merged b fs0) (\<lambda>fs6.
          andThen (prepareBuildManifests L merged b fs6) (\<lambda>(manifests, calls).
          andThen (buildDefaultLambda L merged b (defaultBuildManifest manifests) fs6) (\<lambda>fs7.
            if hasAPIPages (apiBuildManifest manifests)
            then buildApiLambda L merged b (apiBuildManifest manifests) fs7
            else Inr fs7)))))"

section \<open>The cache-behaviour descriptor of the component\<close>

text \<open>
  The component that generates the CloudFront inputs is not among the sources; its test
  (Custom inputs) is. The configuration objects of the test are JSON values.
\<close>

datatype json =
    JsonNum int
  | JsonBool bool
  | JsonStr string
  | JsonArr "json list"
  | JsonObj "(string \<times> json) list"

text \<open>The properties of a value that is spread or read: none unless it is an object.\<close>

definition objOf :: "json option \<Rightarrow> (string \<times> json) list" where
  "objOf v = (case v of Some (JsonObj ob) \<Rightarrow> ob | _ \<Rightarrow> [])"

text \<open>\<open>{...a, ...b}\<close>\<close>

definition spread :: "(string \<times> json) list \<Rightarrow> (string \<times> json) list \<Rightarrow> (string \<times> json) list" where
  "spread a b =
     fold (\<lambda>k acc. case map_of b k of None \<Rightarrow> acc | Some v \<Rightarrow> AList.update k v acc)
          (map fst b) a"

definition allHttpMethods :: json where
  "allHttpMethods =
     JsonArr [JsonStr ''HEAD'', JsonStr ''DELETE'', JsonStr ''POST'', JsonStr ''GET'',
              JsonStr ''OPTIONS'', JsonStr ''PUT'', JsonStr ''PATCH'']"

definition staticForward :: json where
  "staticForward =
     JsonObj [(''headers'', JsonStr ''none''), (''cookies'', JsonStr ''none''),
              (''queryString'', JsonBool False)]"

subsection \<open>The expected call of the CloudFront component (test, Custom cloudfront inputs)\<close>

definition expectedDefaultCacheBehaviour :: "string \<Rightarrow> (string \<times> json) list \<Rightarrow> (string \<times> json) list" where
  "expectedDefaultCacheBehaviour arn defaults =
     spread defaults
       [(''lambda@edge'',
         JsonObj (spread [(''origin-request'', JsonStr arn), (''origin-response'', JsonStr arn)]
                    (objOf (map_of defaults ''lambda@edge''))))]"

definition expectedApiCacheBehaviour :: "string \<Rightarrow> (string \<times> json) list \<Rightarrow> (string \<times> json) list" where
  "expectedApiCacheBehaviour arn expectedInConfig =
     spread (objOf (map_of expectedInConfig ''api/*''))
       [(''allowedHttpMethods'', allHttpMethods),
        (''lambda@edge'',
         JsonObj (spread (objOf (map_of (objOf (map_of expectedInConfig ''api/*'')) ''lambda@edge''))
                    [(''origin-request'', JsonStr arn)]))]"

definition customPageCacheBehaviours :: "string \<Rightarrow> (string \<times> json) list \<Rightarrow> (string \<times> json) list" where
  "customPageCacheBehaviours arn other =
     fold (\<lambda>path acc.
             let cacheBehaviour = objOf (map_of other path)
             in AList.update path
                  (JsonObj (spread cacheBehaviour
                     [(''lambda@edge'',
                       JsonObj (spread [(''origin-request'', JsonStr arn)]
                                  (objOf (map_of cacheBehaviour ''lambda@edge''))))]))
                  acc)
          (map fst other) []"

definition otherInputs :: "(string \<times> json) list \<Rightarrow> (string \<times> json) list" where
  "otherInputs expectedInConfig =
     filter (\<lambda>(k, v). k \<noteq> ''origins'' \<and> k \<noteq> ''defaults'' \<and> k \<noteq> ''priceClass'')
            expectedInConfig"

definition expectedCloudfrontConfig ::
  "string \<Rightarrow> string \<Rightarrow> (string \<times> json) list \<Rightarrow> (string \<times> json) list" where
  "expectedCloudfrontConfig arn bucketUrl expectedInConfig =
     (let origins = (case map_of expectedInConfig ''origins'' of
                       Some (JsonArr xs) \<Rightarrow> xs | _ \<Rightarrow> []);
          defaults = objOf (map_of expectedInConfig ''defaults'');
          priceClass = map_of expectedInConfig ''priceClass'';
          other = otherInputs expectedInConfig;
          custom = customPageCacheBehaviours arn other
      in [(''defaults'',
           JsonObj (spread
             [(''minTTL'', JsonNum 0), (''defaultTTL'', JsonNum 0), (''maxTTL'', JsonNum 31536000),
              (''allowedHttpMethods'', allHttpMethods),
              (''forward'', JsonObj [(''cookies'', JsonStr ''all''), (''queryString'', JsonBool True)]),
              (''compress'', JsonBool True)]
             (expectedDefaultCacheBehaviour arn defaults))),
          (''origins'',
           JsonArr (JsonObj
             [(''pathPatterns'',
               JsonObj (spread custom
                 [(''_next/static/*'',
                   JsonObj (spread (objOf (map_of custom ''_next/static/*''))
                     [(''minTTL'', JsonNum 0), (''defaultTTL'', JsonNum 86400),
                      (''maxTTL'', JsonNum 31536000), (''forward'', staticForward)])),
                  (''_next/data/*'',
                   JsonObj [(''minTTL'', JsonNum 0), (''defaultTTL'', JsonNum 0),
                            (''maxTTL'', JsonNum 31536000),
                            (''allowedHttpMethods'', JsonArr [JsonStr ''HEAD'', JsonStr ''GET'']),
                            (''lambda@edge'',
                             JsonObj [(''origin-request'', JsonStr arn),
                                      (''origin-response'', JsonStr arn)])]),
                  (''api/*'',
                   JsonObj (spread
                     [(''minTTL'', JsonNum 0), (''defaultTTL'', JsonNum 0),
                      (''maxTTL'', JsonNum 31536000)]
                     (expectedApiCacheBehaviour arn expectedInConfig))),
                  (''static/*'',
                   JsonObj (spread (objOf (map_of custom ''static/*''))
                     [(''minTTL'', JsonNum 0), (''defaultTTL'', JsonNum 86400),
                      (''maxTTL'', JsonNum 31536000), (''forward'', staticForward)]))])),
              (''private'', JsonBool True),
              (''url'', JsonStr bucketUrl)] # origins))]
         @ (case priceClass of
              Some (JsonStr pc) \<Rightarrow> (if pc = [] then [] else [(''priceClass'', JsonStr pc)])
            | _ \<Rightarrow> []))"

subsection \<open>The generator\<close>

text \<open>
  Modelled from the spec: the handling of reserved trigger names by the component
  (section 4.7: for the default behaviour and the API-prefix behaviour, any user-supplied
  trigger under the reserved names is discarded). The names are those of the test table:
  \<open>origin-request\<close> and \<open>origin-response\<close> on the default behaviour, \<open>origin-request\<close> on
  \<open>api/*\<close>; the table has the same for \<open>origin-request\<close> on a custom page path (\<open>/terms\<close>).
  A \<open>lambda@edge\<close> object left without triggers is dropped, as in the table.
\<close>

definition dropTriggers :: "string list \<Rightarrow> json \<Rightarrow> json" where
  "dropTriggers names behaviour =
     (case behaviour of
        JsonObj cb \<Rightarrow>
          (case map_of cb ''lambda@edge'' of
             Some (JsonObj ts) \<Rightarrow>
               (let ts' = filter (\<lambda>(k, v). k \<notin> set names) ts
                in if ts' = [] then JsonObj (AList.delete ''lambda@edge'' cb)
                   else JsonObj (AList.update ''lambda@edge'' (JsonObj ts') cb))
           | _ \<Rightarrow> behaviour)
      | _ \<Rightarrow> behaviour)"

text \<open>
  Modelled from the spec: the expansion of a relative origin URL to the bucket's URL
  (test table: custom origins).
\<close>

definition expandOrigin :: "string \<Rightarrow> json \<Rightarrow> json" where
  "expandOrigin bucketUrl origin =
     (case origin of
        JsonStr u \<Rightarrow> (if prefix ''/'' u then JsonStr (bucketUrl @ u) else origin)
      | JsonObj ob \<Rightarrow>
          (case map_of ob ''url'' of
             Some (JsonStr u) \<Rightarrow>
               (if prefix ''/'' u then JsonObj (AList.update ''url'' (JsonStr (bucketUrl @ u)) ob)
                else origin)
           | _ \<Rightarrow> origin)
      | _ \<Rightarrow> origin)"

text \<open>
  Modelled from the spec: the user configuration as the generator merges it (the second
  column of the test table from the first).
\<close>

definition sanitiseInputs :: "string \<Rightarrow> (string \<times> json) list \<Rightarrow> (string \<times> json) list" where
  "sanitiseInputs bucketUrl cfg =
     map (\<lambda>(k, v).
            if k = ''defaults'' then (k, dropTriggers [''origin-request'', ''origin-response''] v)
            else if k = ''origins'' then
              (k, (case v of JsonArr xs \<Rightarrow> JsonArr (map (expandOrigin bucketUrl) xs) | _ \<Rightarrow> v))
            else if k = ''priceClass'' then (k, v)
            else (k, dropTriggers [''origin-request''] v))
         cfg"

datatype componentError = ValidationError string

text \<open>
  Modelled from the spec: the well-known path groups (section 4.7): the API prefix, the
  static-asset prefixes and the data-fetch prefix, under the names of the test.
\<close>

definition wellKnownPaths :: "string list" where
  "wellKnownPaths = [''api/*'', ''static/*'', ''_next/static/*'', ''_next/data/*'']"

text \<open>
  Modelled from the spec: a custom path corresponds to a route of the compiled manifest
  (static, dynamic, or API) when, with a leading slash, it is a non-dynamic route of the
  pages or of the API, or the matcher of a dynamic route accepts it. \<open>regexTest\<close> is the
  test of a compiled regular expression on a string.
\<close>

definition hasRoute :: "(string \<Rightarrow> string \<Rightarrow> bool) \<Rightarrow> BuildManifests \<Rightarrow> string \<Rightarrow> bool" where
  "hasRoute regexTest manifests p =
     (let p' = (if prefix ''/'' p then p else ''/'' @ p);
          groups = [ssr (pages (defaultBuildManifest manifests)),
                    html (pages (defaultBuildManifest manifests)),
                    apis (apiBuildManifest manifests)]
      in list_ex (\<lambda>g. p' \<in> set (map fst (nonDynamic g))) groups \<or>
         list_ex (\<lambda>g. list_ex (\<lambda>(r, entry). regexTest (regex entry) p') (dynamic g)) groups)"

text \<open>
  Modelled from the spec: the user-declared custom paths (section 4.7): the paths of the
  user configuration other than the well-known path groups, for which the system has its
  own defaults (the test table declares \<open>api/*\<close> with success).
\<close>

definition customPaths :: "(string \<times> json) list \<Rightarrow> string list" where
  "customPaths cfg = filter (\<lambda>p. p \<notin> set wellKnownPaths) (map fst (otherInputs cfg))"

text \<open>
  Modelled from the spec: before emission, every user-declared custom path must
  correspond to a route; the validation error names the offending paths (section 4.7). The
  wording of the message is the one the test for invalid inputs expects.
\<close>

definition validatePathPatterns ::
  "(string \<Rightarrow> string \<Rightarrow> bool) \<Rightarrow> BuildManifests \<Rightarrow> (string \<times> json) list \<Rightarrow> componentError + unit" where
  "validatePathPatterns regexTest manifests cfg =
     (let stillToMatch = filter (\<lambda>p. \<not> hasRoute regexTest manifests p) (customPaths cfg)
      in if stillToMatch = [] then Inr ()
         else Inl (ValidationError
                (''CloudFront input failed validation. Could not find next.js pages for ''
                 @ [CHR 0x22] @ joinWith '','' stillToMatch @ [CHR 0x22])))"

text \<open>
  Modelled from the spec: the descriptor generator of the component (section 4.7):
  validation first, then the merge of the user configuration with the system's defaults,
  which yields the call the test expects.
\<close>

definition generate ::
  "(string \<Rightarrow> string \<Rightarrow> bool) \<Rightarrow> string \<Rightarrow> string \<Rightarrow> BuildManifests \<Rightarrow> (string \<times> json) list
     \<Rightarrow> componentError + (string \<times> json) list" where
  "generate regexTest arn bucketUrl manifests cfg =
     (case validatePathPatterns regexTest manifests cfg of
        Inl e \<Rightarrow> Inl e
      | Inr u \<Rightarrow> Inr (expectedCloudfrontConfig arn bucketUrl (sanitiseInputs bucketUrl cfg)))"





section \<open>An implementation of the imports, and a compiled application\<close>

text \<open>
  Modelled from the spec: \<open>isDynamicRoute\<close> (\<open>./lib/isDynamicRoute\<close>, not among the sources);
  section 4.1: a route is dynamic iff its template contains a bracketed segment.
\<close>

definition isDynamicRoute_spec :: "string \<Rightarrow> bool" where
  "isDynamicRoute_spec route =
     list_ex (\<lambda>seg. prefix ''['' seg \<and> suffix '']'' seg) (splitOn CHR ''/'' route)"

text \<open>
  Modelled from the spec: the rank of a segment in \<open>getSortedRoutes\<close> (\<open>./lib/sortedRoutes\<close>,
  not among the sources); section 4.2: segment by segment from the left, a literal
  segment outranks a single-parameter segment, which outranks a catch-all segment; the
  first differing segment decides, and ties keep the discovery order.
\<close>

definition segmentRank :: "string \<Rightarrow> nat" where
  "segmentRank seg =
     (if prefix ''[...'' seg \<or> prefix ''[[...'' seg then 2
      else if prefix ''['' seg then 1 else 0)"

text \<open>
  Modelled from the spec: the comparison of two routes by the ranks of their segments
  (part of \<open>getSortedRoutes\<close>): the first differing segment decides.
\<close>

fun ranksBefore :: "nat list \<Rightarrow> nat list \<Rightarrow> bool" where
  "ranksBefore (x # xs) (y # ys) = (x < y \<or> (x = y \<and> ranksBefore xs ys))"
| "ranksBefore xs ys = False"

text \<open>
  Modelled from the spec: the insertion of a route into the sorted routes (part of
  \<open>getSortedRoutes\<close>), behind every route that it does not outrank.
\<close>

definition insertRoute :: "string \<Rightarrow> string list \<Rightarrow> string list" where
  "insertRoute r acc =
     (let before = (\<lambda>a b. ranksBefore (map segmentRank (splitOn CHR ''/'' a))
                                     (map segmentRank (splitOn CHR ''/'' b)))
      in takeWhile (\<lambda>s. \<not> before r s) acc @ r # dropWhile (\<lambda>s. \<not> before r s) acc)"

text \<open>
  Modelled from the spec: \<open>getSortedRoutes\<close> (\<open>./lib/sortedRoutes\<close>, not among the sources),
  section 4.2, as the stable insertion sort by that comparison.
\<close>

definition getSortedRoutes_spec :: "string list \<Rightarrow> string list" where
  "getSortedRoutes_spec rs = fold insertRoute rs []"

text \<open>
  Modelled from the spec: \<open>expressifyDynamicRoute\<close> (\<open>./lib/expressifyDynamicRoute\<close>, not among
  the sources); section 4.1: the template becomes a pattern in which a parameter segment
  is a named capture (a catch-all a multi-segment one).
\<close>

definition expressifyDynamicRoute_spec :: "string \<Rightarrow> string" where
  "expressifyDynamicRoute_spec route =
     joinWith ''/''
       (map (\<lambda>seg. if prefix ''[...'' seg \<and> suffix '']'' seg
                    then CHR '':'' # drop 4 (butlast seg) @ ''*''
                    else if prefix ''['' seg \<and> suffix '']'' seg
                    then CHR '':'' # drop 1 (butlast seg)
                    else seg)
            (splitOn CHR ''/'' route))"

text \<open>
  Modelled from the spec: \<open>pathToRegexStr\<close> (\<open>./lib/pathToRegexStr\<close>, not among the sources);
  section 4.1: the pattern becomes a matcher of the whole path. The matcher is kept as the
  anchored pattern; no claim depends on its form.
\<close>

definition pathToRegexStr_spec :: "string \<Rightarrow> string" where
  "pathToRegexStr_spec route = ''^'' @ route @ ''$''"

text \<open>
  Modelled from the spec: \<open>isTrailingSlashRedirect\<close> (\<open>./routing/redirector\<close>, not among the
  sources); section 4.6: a redirect that exactly duplicates the automatic trailing-slash
  rule under the base path.
\<close>

definition isTrailingSlashRedirect_spec :: "RedirectData \<Rightarrow> string \<Rightarrow> bool" where
  "isTrailingSlashRedirect_spec redirect base =
     (statusCode redirect = 308 \<and>
      ((source redirect = base @ ''/:path+/'' \<and> destination redirect = base @ ''/:path+'') \<or>
       (source redirect = base @ ''/:path+'' \<and> destination redirect = base @ ''/:path+/'')))"

text \<open>
  Modelled from the spec: \<open>pathToPosix\<close> (\<open>./lib/pathToPosix\<close>, not among the sources);
  section 4.3: paths in forward-slash form independent of the host's conventions.
\<close>

definition pathToPosix_spec :: "string \<Rightarrow> string" where
  "pathToPosix_spec s = map (\<lambda>c. if c = CHR 0x5C then CHR ''/'' else c) s"

text \<open>The pages manifest of a compiled application, with and without API pages.\<close>

definition examplePages :: "(string \<times> string) list" where
  "examplePages =
     [(''/[...all]'', ''pages/[...all].js''),
      (''/'', ''pages/index.js''),
      (''/blog/[id]'', ''pages/blog/[id].js''),
      (''/terms'', ''pages/terms.html''),
      (''/api/hello'', ''pages/api/hello.js''),
      (''/api/users/[uid]'', ''pages/api/users/[uid].js''),
      (''/docs/[page]'', ''pages/docs/[page].html'')]"

definition examplePagesNoApi :: "(string \<times> string) list" where
  "examplePagesNoApi =
     [(''/'', ''pages/index.js''),
      (''/blog/[id]'', ''pages/blog/[id].js''),
      (''/terms'', ''pages/terms.html'')]"

definition examplePrerender :: PrerenderManifest where
  "examplePrerender = \<lparr>routes = Some [(''/terms'', \<lparr>dataRoute = ''/_next/data/id/terms.json''\<rparr>)]\<rparr>"

definition exampleRoutes :: RoutesManifest where
  "exampleRoutes =
     \<lparr>basePath = [],
      redirects =
        [\<lparr>source = ''/:path+/'', destination = ''/:path+'', statusCode = 308\<rparr>,
         \<lparr>source = ''/old'', destination = ''/new'', statusCode = 301\<rparr>],
      otherFields = [(''version'', JNum 1)]\<rparr>"

text \<open>What the build command writes under \<open>/app/.next\<close>.\<close>

definition compiledOutput :: "(string \<times> string) list \<Rightarrow> fs" where
  "compiledOutput pagesManifest =
     [([''app'', ''.next''], Dir),
      ([''app'', ''.next'', ''BUILD_ID''], File (Text ''test-build-id'')),
      ([''app'', ''.next'', ''prerender-manifest.json''], File (PrerenderManifestFile examplePrerender)),
      ([''app'', ''.next'', ''routes-manifest.json''], File (RoutesManifestFile exampleRoutes)),
      ([''app'', ''.next'', ''serverless''], Dir),
      ([''app'', ''.next'', ''serverless'', ''pages-manifest.json''],
       File (PagesManifestFile pagesManifest)),
      ([''app'', ''.next'', ''serverless'', ''pages''], Dir),
      ([''app'', ''.next'', ''serverless'', ''pages'', ''index.js''], File (Text ''index'')),
      ([''app'', ''.next'', ''serverless'', ''pages'', ''terms.html''], File (Text ''terms'')),
      ([''app'', ''.next'', ''serverless'', ''pages'', ''terms.json''], File (Text ''props'')),
      ([''app'', ''.next'', ''serverless'', ''pages'', ''terms.js''], File (Text ''terms'')),
      ([''app'', ''.next'', ''serverless'', ''pages'', ''blog''], Dir),
      ([''app'', ''.next'', ''serverless'', ''pages'', ''blog'', ''[id].js''], File (Text ''blog''))]
     @ (if list_ex (\<lambda>(r, f). prefix ''pages/api/'' f) pagesManifest
        then [([''app'', ''.next'', ''serverless'', ''pages'', ''api''], Dir),
              ([''app'', ''.next'', ''serverless'', ''pages'', ''api'', ''hello.js''],
               File (Text ''hello''))]
        else [])"

text \<open>
  An instance of the imports: the functions above; a \<open>normalizeNodeModules\<close> that changes
  nothing, a \<open>createServerlessConfig\<close> and a \<open>restoreUserConfig\<close> that leave the files as
  they are, a build command that writes the compiled output (and fails when it is given
  no command), and a file trace that finds no file.
\<close>

definition exampleLib :: "(string \<times> string) list \<Rightarrow> Lib" where
  "exampleLib pagesManifest =
     \<lparr>isDynamicRoute = isDynamicRoute_spec,
      getSortedRoutes = getSortedRoutes_spec,
      expressifyDynamicRoute = expressifyDynamicRoute_spec,
      pathToRegexStr = pathToRegexStr_spec,
      isTrailingSlashRedirect = isTrailingSlashRedirect_spec,
      pathToPosix = pathToPosix_spec,
      normalizeNodeModules = (\<lambda>s. s),
      createServerlessConfig = (\<lambda>dir configDir trace fs. Inr (fs, Inr)),
      execa = (\<lambda>command arguments dir environment fs.
                 if command = None then Inl (TypeError ''Expected the command to be a string'')
                 else Inr (fold (\<lambda>entry acc. AList.update (fst entry) (snd entry) acc)
                             (compiledOutput pagesManifest) fs)),
      nodeFileTrace = (\<lambda>fs entryPoints. Inr ([], \<lambda>f. None)),
      defaultHandlerJs = [''node_modules'', ''default-handler.js''],
      apiHandlerJs = [''node_modules'', ''api-handler.js''],
      processCwd = [''app'']\<rparr>"

definition exampleBuilder :: Builder where
  "exampleBuilder = newBuilder [''app''] [''app'', ''build''] None"

text \<open>The module's default options in a process that runs in \<open>/app\<close>.\<close>

definition exampleDefaults :: BuildOptions where
  "exampleDefaults = defaultBuildOptions (exampleLib [])"

text \<open>The file system before a build: an application with the output of an older build.\<close>

definition exampleFs :: fs where
  "exampleFs =
     [([], Dir),
      ([''node_modules''], Dir),
      ([''node_modules'', ''default-handler.js''], File (Text ''default handler'')),
      ([''node_modules'', ''api-handler.js''], File (Text ''api handler'')),
      ([''app''], Dir),
      ([''app'', ''next.config.js''],
       File (NextConfigModule
         (Producer (\<lambda>phase options. CObject \<lparr>cfgTrailingSlash = JBool True\<rparr>)))),
      ([''app'', ''public''], Dir),
      ([''app'', ''public'', ''favicon.ico''], File (Text ''icon'')),
      ([''app'', ''.next''], Dir),
      ([''app'', ''.next'', ''cache''], Dir),
      ([''app'', ''.next'', ''cache'', ''webpack''], File (Text ''cached'')),
      ([''app'', ''.next'', ''BUILD_ID''], File (Text ''old-build-id'')),
      ([''app'', ''.next'', ''serverless''], Dir),
      ([''app'', ''.next'', ''serverless'', ''stale.js''], File (Text ''stale''))]"

text \<open>The file system after the build command has run on \<open>exampleFs\<close>.\<close>

definition compiledFs :: "(string \<times> string) list \<Rightarrow> fs" where
  "compiledFs pagesManifest =
     fold (\<lambda>entry acc. AList.update (fst entry) (snd entry) acc)
          (compiledOutput pagesManifest) exampleFs"

text \<open>
  An application with the two pages \<open>index\<close> and \<open>apiary\<close> and without API pages: its pages
  manifest, what the build command writes, that command as \<open>execa\<close>, and the file system
  after the command has run on \<open>exampleFs\<close>.
\<close>

definition apiaryPages :: "(string \<times> string) list" where
  "apiaryPages = [(''/'', ''pages/index.js''), (''/apiary'', ''pages/apiary.js'')]"

definition apiaryOutput :: fs where
  "apiaryOutput =
     [([''app'', ''.next''], Dir),
      ([''app'', ''.next'', ''BUILD_ID''], File (Text ''test-build-id'')),
      ([''app'', ''.next'', ''prerender-manifest.json''],
       File (PrerenderManifestFile \<lparr>routes = Some []\<rparr>)),
      ([''app'', ''.next'', ''routes-manifest.json''], File (RoutesManifestFile exampleRoutes)),
      ([''app'', ''.next'', ''serverless''], Dir),
      ([''app'', ''.next'', ''serverless'', ''pages-manifest.json''],
       File (PagesManifestFile apiaryPages)),
      ([''app'', ''.next'', ''serverless'', ''pages''], Dir),
      ([''app'', ''.next'', ''serverless'', ''pages'', ''index.js''], File (Text ''index'')),
      ([''app'', ''.next'', ''serverless'', ''pages'', ''apiary.js''], File (Text ''apiary''))]"

definition apiaryLib :: Lib where
  "apiaryLib =
     (exampleLib apiaryPages)
       \<lparr>execa := (\<lambda>command arguments dir environment fs.
                    Inr (fold (\<lambda>entry acc. AList.update (fst entry) (snd entry) acc)
                           apiaryOutput fs))\<rparr>"

definition apiaryFs :: fs where
  "apiaryFs =
     fold (\<lambda>entry acc. AList.update (fst entry) (snd entry) acc) apiaryOutput exampleFs"

text \<open>The build manifests of that application, as \<open>prepareBuildManifests\<close> returns them.\<close>

definition apiaryManifests :: BuildManifests where
  "apiaryManifests =
     \<lparr>defaultBuildManifest =
        \<lparr>buildId = ''test-build-id'', logLambdaExecutionTimes = False,
         pages = \<lparr>ssr = \<lparr>dynamic = [], nonDynamic = [(''/'', ''pages/index.js'')]\<rparr>,
                  html = \<lparr>dynamic = [], nonDynamic = []\<rparr>\<rparr>,
         publicFiles = [(''/favicon.ico'', ''favicon.ico'')], trailingSlash = JBool True\<rparr>,
      apiBuildManifest =
        \<lparr>apis = \<lparr>dynamic = [], nonDynamic = [(''/apiary'', ''pages/apiary.js'')]\<rparr>\<rparr>\<rparr>"

section \<open>Notions the properties are stated with\<close>

text \<open>
  The category that the classification gives a page file, in its order: static markup
  first, then a page file that \<open>startsWith("pages/api")\<close>, else server-rendered.
\<close>

datatype Category = HtmlPage | ApiRoute | SsrPage

definition categoryOf :: "string \<Rightarrow> Category" where
  "categoryOf pf =
     (if isHtmlPage pf then HtmlPage else if isApiPage pf then ApiRoute else SsrPage)"

fun bucketOf :: "Category \<Rightarrow> PageBuckets \<Rightarrow> PageGroup" where
  "bucketOf HtmlPage st = htmlPages st"
| "bucketOf ApiRoute st = apiPages st"
| "bucketOf SsrPage st = ssrPages st"

fun groupOf :: "Category \<Rightarrow> BuildManifests \<Rightarrow> PageGroup" where
  "groupOf HtmlPage m = html (pages (defaultBuildManifest m))"
| "groupOf ApiRoute m = apis (apiBuildManifest m)"
| "groupOf SsrPage m = ssr (pages (defaultBuildManifest m))"

text \<open>
  The route of a page module: its path relative to the pages directory without the
  three characters of the extension \<open>.js\<close>, with a leading slash, \<open>/index\<close> being the root.
\<close>

definition pageRouteOf :: "string \<Rightarrow> string" where
  "pageRouteOf relativePageFile =
     (let stem = rev (drop 3 (rev relativePageFile));
          slashed = (if take 1 stem = ''/'' then stem else CHR ''/'' # stem)
      in if slashed = ''/index'' then ''/'' else slashed)"

text \<open>The outcome of an operation: whether it succeeded, and its result.\<close>

definition succeeded :: "error + 'a \<Rightarrow> bool" where
  "succeeded r = (case r of Inl e \<Rightarrow> False | Inr x \<Rightarrow> True)"

definition resultFs :: "error + fs \<Rightarrow> fs" where
  "resultFs r = (case r of Inl e \<Rightarrow> [] | Inr fs \<Rightarrow> fs)"

text \<open>
  The page-rendering bundle of a compiled output: what \<open>build\<close> does after the build
  command up to the end of \<open>buildDefaultLambda\<close>.
\<close>

definition pageBundle :: "Lib \<Rightarrow> BuildOptions \<Rightarrow> Builder \<Rightarrow> fs \<Rightarrow> error + fs" where
  "pageBundle L defaults b fs =
     andThen (prepareBuildManifests L defaults b fs) (\<lambda>(manifests, calls).
       buildDefaultLambda L defaults b (defaultBuildManifest manifests) fs)"



section \<open>The table of the test for custom CloudFront inputs\<close>

definition testArn :: string where
  "testArn = ''arn:aws:lambda:us-east-1:123456789012:function:my-func:v1''"

definition testBucketUrl :: string where
  "testBucketUrl = ''http://bucket-xyz.s3.us-east-1.amazonaws.com''"

text \<open>
  The rows of the test: the cloudfront input of the component and what the test expects
  of it in the call of the CloudFront component (\<open>undefined\<close> is the empty object here).
\<close>

definition customInputsTable ::
  "((string \<times> json) list \<times> (string \<times> json) list) list" where
  "customInputsTable =
     [([], []),
      ([], []),
      ([(''defaults'',
         JsonObj [(''minTTL'', JsonNum 0), (''defaultTTL'', JsonNum 0), (''maxTTL'', JsonNum 31536000),
                  (''lambda@edge'',
                   JsonObj [(''origin-request'', JsonStr ''ignored''),
                            (''origin-response'', JsonStr ''also ignored'')])])],
       [(''defaults'',
         JsonObj [(''minTTL'', JsonNum 0), (''defaultTTL'', JsonNum 0),
                  (''maxTTL'', JsonNum 31536000)])]),
      ([(''defaults'',
         JsonObj [(''minTTL'', JsonNum 0), (''defaultTTL'', JsonNum 0), (''maxTTL'', JsonNum 31536000),
                  (''lambda@edge'', JsonObj [(''viewer-request'', JsonStr ''used value'')])])],
       [(''defaults'',
         JsonObj [(''minTTL'', JsonNum 0), (''defaultTTL'', JsonNum 0), (''maxTTL'', JsonNum 31536000),
                  (''lambda@edge'', JsonObj [(''viewer-request'', JsonStr ''used value'')])])]),
      ([(''defaults'',
         JsonObj [(''forward'',
                   JsonObj [(''cookies'', JsonStr ''all''), (''headers'', JsonStr ''X''),
                            (''queryString'', JsonBool True)])])],
       [(''defaults'',
         JsonObj [(''forward'',
                   JsonObj [(''cookies'', JsonStr ''all''), (''headers'', JsonStr ''X''),
                            (''queryString'', JsonBool True)])])]),
      ([(''api/*'',
         JsonObj [(''minTTL'', JsonNum 500), (''defaultTTL'', JsonNum 500), (''maxTTL'', JsonNum 500),
                  (''lambda@edge'', JsonObj [(''origin-request'', JsonStr ''ignored value'')])])],
       [(''api/*'',
         JsonObj [(''minTTL'', JsonNum 500), (''defaultTTL'', JsonNum 500),
                  (''maxTTL'', JsonNum 500)])]),
      ([(''api/*'',
         JsonObj [(''minTTL'', JsonNum 500), (''defaultTTL'', JsonNum 500), (''maxTTL'', JsonNum 500),
                  (''lambda@edge'', JsonObj [(''origin-response'', JsonStr ''used value'')])])],
       [(''api/*'',
         JsonObj [(''minTTL'', JsonNum 500), (''defaultTTL'', JsonNum 500), (''maxTTL'', JsonNum 500),
                  (''lambda@edge'', JsonObj [(''origin-response'', JsonStr ''used value'')])])]),
      ([(''origins'',
         JsonArr [JsonStr ''http://some-origin'', JsonStr ''/relative'',
                  JsonObj [(''url'', JsonStr ''http://diff-origin'')],
                  JsonObj [(''url'', JsonStr ''/diff-relative'')]])],
       [(''origins'',
         JsonArr [JsonStr ''http://some-origin'',
                  JsonStr ''http://bucket-xyz.s3.us-east-1.amazonaws.com/relative'',
                  JsonObj [(''url'', JsonStr ''http://diff-origin'')],
                  JsonObj [(''url'',
                            JsonStr ''http://bucket-xyz.s3.us-east-1.amazonaws.com/diff-relative'')]])]),
      ([(''priceClass'', JsonStr ''PriceClass_100'')],
       [(''priceClass'', JsonStr ''PriceClass_100'')]),
      ([(''/terms'',
         JsonObj [(''minTTL'', JsonNum 5500), (''defaultTTL'', JsonNum 5500), (''maxTTL'', JsonNum 5500),
                  (''misc-param'', JsonStr ''misc-value''),
                  (''lambda@edge'', JsonObj [(''origin-request'', JsonStr ''ignored value'')])])],
       [(''/terms'',
         JsonObj [(''minTTL'', JsonNum 5500), (''defaultTTL'', JsonNum 5500), (''maxTTL'', JsonNum 5500),
                  (''misc-param'', JsonStr ''misc-value'')])]),
      ([(''/customers/stan-sack'',
         JsonObj [(''minTTL'', JsonNum 5500), (''defaultTTL'', JsonNum 5500),
                  (''maxTTL'', JsonNum 5500)])],
       [(''/customers/stan-sack'',
         JsonObj [(''minTTL'', JsonNum 5500), (''defaultTTL'', JsonNum 5500),
                  (''maxTTL'', JsonNum 5500)])])]"


text \<open>The input of the test for invalid CloudFront inputs.\<close>

definition invalidInput :: "(string \<times> json) list" where
  "invalidInput = [(''some-invalid-page-route'', JsonObj [(''ttl'', JsonNum 100)])]"

text \<open>A compiled manifest that has the static page \<open>/terms\<close>, and a matcher that accepts nothing.\<close>

definition termsManifests :: BuildManifests where
  "termsManifests =
     \<lparr>defaultBuildManifest =
        \<lparr>buildId = ''test-build-id'', logLambdaExecutionTimes = False,
         pages = \<lparr>ssr = emptyGroup,
                  html = \<lparr>dynamic = [], nonDynamic = [(''/terms'', ''pages/terms.html'')]\<rparr>\<rparr>,
         publicFiles = [], trailingSlash = JBool False\<rparr>,
      apiBuildManifest = \<lparr>apis = emptyGroup\<rparr>\<rparr>"

definition noMatch :: "string \<Rightarrow> string \<Rightarrow> bool" where
  "noMatch r p = False"


definition validationMessage :: "componentError + (string \<times> json) list \<Rightarrow> string" where
  "validationMessage r = (case r of Inl (ValidationError msg) \<Rightarrow> msg | Inr d \<Rightarrow> [])"


section \<open>Properties of readPagesManifest\<close>

lemma fold_update_keys:
  "distinct ks \<Longrightarrow> set ks \<inter> fst ` set acc = {} \<Longrightarrow>
   map fst (fold (\<lambda>r a. AList.update r (g r) a) ks acc) = map fst acc @ ks"
proof (induction ks arbitrary: acc)
  case Nil
  then show ?case by simp
next
  case (Cons k ks)
  have k: "k \<notin> fst ` set acc" using Cons.prems by auto
  have keys: "map fst (AList.update k (g k) acc) = map fst acc @ [k]"
    using k by (simp add: update_keys)
  have "set ks \<inter> fst ` set (AList.update k (g k) acc) = {}"
    using Cons.prems by (auto simp: dom_update)
  with Cons.IH [of "AList.update k (g k) acc"] Cons.prems keys show ?case by simp
qed

lemma fold_update_map_of:
  "map_of (fold (\<lambda>r a. AList.update r (g r) a) ks acc) k =
     (if k \<in> set ks then Some (g k) else map_of acc k)"
  by (induction ks arbitrary: acc) (auto simp: update_conv')

lemma fold_skip_filter:
  "fold (\<lambda>r a. if P r then a else h r a) ks acc = fold h (filter (\<lambda>r. \<not> P r) ks) acc"
  by (induction ks arbitrary: acc) auto

lemma sortPagesManifest_keys:
  assumes "distinct (map fst pm)"
    and "distinct (getSortedRoutes L (filter (isDynamicRoute L) (map fst pm)))"
    and "set (getSortedRoutes L (filter (isDynamicRoute L) (map fst pm)))
           = set (filter (isDynamicRoute L) (map fst pm))"
  shows "map fst (sortPagesManifest L pm) =
           filter (\<lambda>r. \<not> isDynamicRoute L r) (map fst pm)
           @ getSortedRoutes L (filter (isDynamicRoute L) (map fst pm))"
proof -
  let ?nd = "filter (\<lambda>r. \<not> isDynamicRoute L r) (map fst pm)"
  let ?S = "getSortedRoutes L (filter (isDynamicRoute L) (map fst pm))"
  let ?acc = "fold (\<lambda>r a. AList.update r (map_of pm r) a) ?nd []"
  have a: "map fst ?acc = ?nd"
    using fold_update_keys [of ?nd "[]" "map_of pm"] assms(1) by simp
  have "set ?S \<inter> fst ` set ?acc = {}"
  proof -
    have "fst ` set ?acc = set ?nd" using a by (metis set_map)
    then show ?thesis using assms(3) by auto
  qed
  then have "map fst (fold (\<lambda>r a. AList.update r (map_of pm r) a) ?S ?acc) = map fst ?acc @ ?S"
    using fold_update_keys [of ?S ?acc "map_of pm"] assms(2) by simp
  then show ?thesis
    by (simp add: sortPagesManifest_def Let_def fold_skip_filter a)
qed

lemma sortPagesManifest_map_of:
  assumes "set (getSortedRoutes L (filter (isDynamicRoute L) (map fst pm)))
           = set (filter (isDynamicRoute L) (map fst pm))"
  shows "map_of (sortPagesManifest L pm) r =
           (if r \<in> set (map fst pm) then Some (map_of pm r) else None)"
  using assms
  by (auto simp: sortPagesManifest_def Let_def fold_skip_filter fold_update_map_of)

text \<open>
  C4. For every pages manifest that \<open>readPagesManifest\<close> reads (an object, so with distinct
  keys), and a route sorter that returns its argument reordered, the returned route map
  lists the non-dynamic routes in their discovery order, followed by the dynamic routes
  exactly in the order the sorter produced; so every non-dynamic route precedes every
  dynamic one; and each route keeps the page file it had in the manifest.
\<close>

theorem readPagesManifest_order:
  assumes manifest: "readFile fs (join (serverlessDir b) [''pages-manifest.json''])
                   = Inr (PagesManifestFile pm)"
    and keys: "distinct (map fst pm)"
    and sorter: "distinct (getSortedRoutes L (filter (isDynamicRoute L) (map fst pm)))
       \<and> set (getSortedRoutes L (filter (isDynamicRoute L) (map fst pm)))
           = set (filter (isDynamicRoute L) (map fst pm))"
  shows "\<exists>res. readPagesManifest L b fs = Inr res
     \<and> map fst res = filter (\<lambda>r. \<not> isDynamicRoute L r) (map fst pm)
                      @ getSortedRoutes L (filter (isDynamicRoute L) (map fst pm))
     \<and> (\<forall>i j. i < length res \<and> j < length res \<and> \<not> isDynamicRoute L (fst (res ! i))
               \<and> isDynamicRoute L (fst (res ! j)) \<longrightarrow> i < j)
     \<and> (\<forall>r pf. (r, pf) \<in> set pm \<longrightarrow> map_of res r = Some (Some pf))
     \<and> (\<forall>r. r \<notin> fst ` set pm \<longrightarrow> map_of res r = None)"
proof -
  let ?p = "join (serverlessDir b) [''pages-manifest.json'']"
  let ?res = "sortPagesManifest L pm"
  let ?nd = "filter (\<lambda>r. \<not> isDynamicRoute L r) (map fst pm)"
  let ?S = "getSortedRoutes L (filter (isDynamicRoute L) (map fst pm))"
  have ex: "pathExists fs ?p"
    using manifest by (auto simp: readFile_def pathExists_def split: option.splits)
  have res: "readPagesManifest L b fs = Inr ?res"
    using ex manifest by (simp add: readPagesManifest_def Let_def)
  have ks: "map fst ?res = ?nd @ ?S"
    using sortPagesManifest_keys [OF keys] sorter by blast
  have order: "i < j" if ij: "i < length ?res" "j < length ?res"
    and nd: "\<not> isDynamicRoute L (fst (?res ! i))" and d: "isDynamicRoute L (fst (?res ! j))"
    for i j
  proof (rule ccontr)
    assume "\<not> i < j"
    then have ji: "j \<le> i" by simp
    have len: "length ?res = length ?nd + length ?S"
      using ks by (metis length_append length_map)
    have fi: "fst (?res ! i) = (?nd @ ?S) ! i" using ks ij(1) by (metis nth_map)
    have fj: "fst (?res ! j) = (?nd @ ?S) ! j" using ks ij(2) by (metis nth_map)
    have "j < length ?nd"
    proof (rule ccontr)
      assume "\<not> j < length ?nd"
      then have "\<not> i < length ?nd" using ji by simp
      then have "(?nd @ ?S) ! i = ?S ! (i - length ?nd)" by (simp add: nth_append)
      moreover have "i - length ?nd < length ?S" using ij(1) len \<open>\<not> i < length ?nd\<close> by simp
      ultimately have "(?nd @ ?S) ! i \<in> set ?S" by (metis nth_mem)
      then have "isDynamicRoute L ((?nd @ ?S) ! i)" using sorter by auto
      then show False using nd fi by simp
    qed
    then have "(?nd @ ?S) ! j = ?nd ! j" and "?nd ! j \<in> set ?nd"
      using nth_mem [of j ?nd] by (simp_all add: nth_append)
    then have "(?nd @ ?S) ! j \<in> set ?nd" by simp
    then have "\<not> isDynamicRoute L ((?nd @ ?S) ! j)" by auto
    then show False using d fj by simp
  qed
  have vals: "map_of ?res r = Some (Some pf)" if "(r, pf) \<in> set pm" for r pf
  proof -
    have "map_of pm r = Some pf" using that keys by simp
    moreover have "r \<in> set (map fst pm)" using that by force
    ultimately show ?thesis using sortPagesManifest_map_of [of L pm r] sorter by simp
  qed
  have none: "map_of ?res r = None" if "r \<notin> fst ` set pm" for r
    using that sortPagesManifest_map_of [of L pm r] sorter by simp
  show ?thesis using res ks order vals none by blast
qed

theorem readPagesManifest_order_witness:
  "\<exists>res. readPagesManifest (exampleLib examplePages) exampleBuilder (compiledOutput examplePages)
            = Inr res
     \<and> map fst res = [''/'', ''/terms'', ''/api/hello'',
                       ''/api/users/[uid]'', ''/blog/[id]'', ''/docs/[page]'', ''/[...all]'']
     \<and> map_of res ''/blog/[id]'' = Some (Some ''pages/blog/[id].js'')"
proof -
  let ?L = "exampleLib examplePages"
  have h1: "readFile (compiledOutput examplePages)
              (join (serverlessDir exampleBuilder) [''pages-manifest.json''])
            = Inr (PagesManifestFile examplePages)"
    by (simp add: readFile_def exampleBuilder_def newBuilder_def join_def compiledOutput_def)
  have h2: "distinct (map fst examplePages)"
    by (simp add: examplePages_def)
  have s: "getSortedRoutes ?L [''/[...all]'', ''/blog/[id]'', ''/api/users/[uid]'', ''/docs/[page]'']
           = [''/api/users/[uid]'', ''/blog/[id]'', ''/docs/[page]'', ''/[...all]'']"
    by code_simp
  have f: "filter (isDynamicRoute ?L) (map fst examplePages)
           = [''/[...all]'', ''/blog/[id]'', ''/api/users/[uid]'', ''/docs/[page]'']"
    by code_simp
  have nd: "filter (\<lambda>r. \<not> isDynamicRoute ?L r) (map fst examplePages)
           = [''/'', ''/terms'', ''/api/hello'']"
    by code_simp
  have h3: "distinct (getSortedRoutes ?L (filter (isDynamicRoute ?L) (map fst examplePages)))
       \<and> set (getSortedRoutes ?L (filter (isDynamicRoute ?L) (map fst examplePages)))
           = set (filter (isDynamicRoute ?L) (map fst examplePages))"
    unfolding f s by auto
  have m: "(''/blog/[id]'', ''pages/blog/[id].js'') \<in> set examplePages"
    by (simp add: examplePages_def)
  from readPagesManifest_order [OF h1 h2 h3] obtain res where
    r: "readPagesManifest ?L exampleBuilder (compiledOutput examplePages) = Inr res"
      "map fst res = filter (\<lambda>r. \<not> isDynamicRoute ?L r) (map fst examplePages)
                      @ getSortedRoutes ?L (filter (isDynamicRoute ?L) (map fst examplePages))"
      "\<forall>r pf. (r, pf) \<in> set examplePages \<longrightarrow> map_of res r = Some (Some pf)"
    by blast
  show ?thesis using r m unfolding f s nd by auto
qed

text \<open>
  C7. \<open>readPagesManifest\<close> rejects with its message exactly when the pages manifest is
  absent from the serverless build directory; the message names the missing artifact
  (pages-manifest) and the likely misconfiguration (the target of \<open>next.config.js\<close> not set
  to 'serverless'). When the manifest is present, no rejection with a message occurs.
\<close>

theorem readPagesManifest_rejects:
  "((\<exists>msg. readPagesManifest L b fs = Inl (Rejected msg))
      \<longleftrightarrow> \<not> pathExists fs (join (serverlessDir b) [''pages-manifest.json'']))
   \<and> (\<forall>msg. readPagesManifest L b fs = Inl (Rejected msg) \<longrightarrow>
         sublist ''pages-manifest'' msg \<and> sublist ''next.config.js'' msg
         \<and> sublist (''target is set to '' @ [CHR 0x27] @ ''serverless'' @ [CHR 0x27]) msg)"
proof -
  have msg: "sublist ''pages-manifest'' pagesManifestNotFound"
    "sublist ''next.config.js'' pagesManifestNotFound"
    "sublist (''target is set to '' @ [CHR 0x27] @ ''serverless'' @ [CHR 0x27]) pagesManifestNotFound"
    by (simp_all add: pagesManifestNotFound_def sublist_code)
  have only: "m = pagesManifestNotFound
      \<and> \<not> pathExists fs (join (serverlessDir b) [''pages-manifest.json''])"
    if "readPagesManifest L b fs = Inl (Rejected m)" for m
    using that
    by (auto simp: readPagesManifest_def Let_def readFile_def pathExists_def
        split: if_splits option.splits node.splits content.splits sum.splits)
  have absent: "readPagesManifest L b fs = Inl (Rejected pagesManifestNotFound)"
    if "\<not> pathExists fs (join (serverlessDir b) [''pages-manifest.json''])"
    using that by (simp add: readPagesManifest_def Let_def)
  show ?thesis using msg only absent by blast
qed

theorem readPagesManifest_rejects_witness:
  "readPagesManifest (exampleLib examplePages) exampleBuilder exampleFs
     = Inl (Rejected pagesManifestNotFound)
   \<and> sublist ''pages-manifest'' pagesManifestNotFound
   \<and> (\<forall>msg. readPagesManifest (exampleLib examplePages) exampleBuilder
               (compiledOutput examplePages) \<noteq> Inl (Rejected msg))"
proof -
  have a: "\<not> pathExists exampleFs (join (serverlessDir exampleBuilder) [''pages-manifest.json''])"
    by (simp add: pathExists_def exampleFs_def exampleBuilder_def newBuilder_def join_def)
  have b: "pathExists (compiledOutput examplePages)
             (join (serverlessDir exampleBuilder) [''pages-manifest.json''])"
    by (simp add: pathExists_def exampleBuilder_def newBuilder_def join_def compiledOutput_def)
  have c: "readPagesManifest (exampleLib examplePages) exampleBuilder exampleFs
             = Inl (Rejected pagesManifestNotFound)"
    using a by (simp add: readPagesManifest_def Let_def)
  show ?thesis
    using a b c readPagesManifest_rejects [of "exampleLib examplePages" exampleBuilder exampleFs]
      readPagesManifest_rejects [of "exampleLib examplePages" exampleBuilder
        "compiledOutput examplePages"]
    by blast
qed

section \<open>Properties of prepareBuildManifests\<close>

lemma classifyPage_nonDynamic:
  "map_of (nonDynamic (bucketOf c (classifyPage L r pf st))) =
     (if \<not> isDynamicRoute L r \<and> categoryOf pf = c
      then (map_of (nonDynamic (bucketOf c st)))(r \<mapsto> pf)
      else map_of (nonDynamic (bucketOf c st)))"
  by (cases c) (simp_all add: classifyPage_def categoryOf_def Let_def update_conv')

lemma classifyPage_dynamic:
  "map_of (dynamic (bucketOf c (classifyPage L r pf st))) =
     (if isDynamicRoute L r \<and> categoryOf pf = c
      then (map_of (dynamic (bucketOf c st)))
             (expressifyDynamicRoute L r \<mapsto>
                \<lparr>pageFile = pf, regex = pathToRegexStr L (expressifyDynamicRoute L r)\<rparr>)
      else map_of (dynamic (bucketOf c st)))"
  by (cases c) (simp_all add: classifyPage_def categoryOf_def Let_def update_conv')

lemma classifyPages_nonDynamic:
  "classifyPages L es st = Inr st' \<Longrightarrow> distinct (map fst es) \<Longrightarrow>
   map_of (nonDynamic (bucketOf c st')) r =
     (case map_of es r of
        Some (Some pf) \<Rightarrow>
          if \<not> isDynamicRoute L r \<and> categoryOf pf = c then Some pf
          else map_of (nonDynamic (bucketOf c st)) r
      | _ \<Rightarrow> map_of (nonDynamic (bucketOf c st)) r)"
proof (induction L es st rule: classifyPages.induct)
  case (1 L st)
  then show ?case by simp
next
  case (2 L route entries st)
  then show ?case by simp
next
  case (3 L route pf entries st)
  have notin: "map_of entries route = None"
    using 3 by (simp add: map_of_eq_None_iff)
  show ?case
  proof (cases "r = route")
    case True
    with 3 notin show ?thesis by (simp add: classifyPage_nonDynamic)
  next
    case False
    with 3 show ?thesis by (simp add: classifyPage_nonDynamic split: option.splits)
  qed
qed

lemma classifyPages_dynamic_other:
  "classifyPages L es st = Inr st' \<Longrightarrow>
   (\<forall>r v. (r, v) \<in> set es \<and> isDynamicRoute L r \<longrightarrow> expressifyDynamicRoute L r \<noteq> k) \<Longrightarrow>
   map_of (dynamic (bucketOf c st')) k = map_of (dynamic (bucketOf c st)) k"
proof (induction L es st rule: classifyPages.induct)
  case (1 L st)
  then show ?case by simp
next
  case (2 L route entries st)
  then show ?case by simp
next
  case (3 L route pf entries st)
  have run: "classifyPages L entries (classifyPage L route pf st) = Inr st'"
    using "3.prems"(1) by simp
  have rest: "\<forall>r v. (r, v) \<in> set entries \<and> isDynamicRoute L r
                \<longrightarrow> expressifyDynamicRoute L r \<noteq> k"
    using "3.prems"(2) by auto
  have hd: "isDynamicRoute L route \<longrightarrow> expressifyDynamicRoute L route \<noteq> k"
    using "3.prems"(2) by auto
  have "map_of (dynamic (bucketOf c st')) k
          = map_of (dynamic (bucketOf c (classifyPage L route pf st))) k"
    using "3.IH" [OF run rest] .
  also have "\<dots> = map_of (dynamic (bucketOf c st)) k"
    using hd by (auto simp: classifyPage_dynamic)
  finally show ?case .
qed

lemma classifyPages_dynamic:
  "classifyPages L es st = Inr st' \<Longrightarrow> distinct (map fst es) \<Longrightarrow>
   inj_on (expressifyDynamicRoute L) {r \<in> fst ` set es. isDynamicRoute L r} \<Longrightarrow>
   (r, Some pf) \<in> set es \<Longrightarrow> isDynamicRoute L r \<Longrightarrow>
   map_of (dynamic (bucketOf c st')) (expressifyDynamicRoute L r) =
     (if categoryOf pf = c
      then Some \<lparr>pageFile = pf, regex = pathToRegexStr L (expressifyDynamicRoute L r)\<rparr>
      else map_of (dynamic (bucketOf c st)) (expressifyDynamicRoute L r))"
proof (induction L es st rule: classifyPages.induct)
  case (1 L st)
  then show ?case by simp
next
  case (2 L route entries st)
  then show ?case by simp
next
  case (3 L route pf0 entries st)
  let ?st1 = "classifyPage L route pf0 st"
  have run: "classifyPages L entries ?st1 = Inr st'" using 3 by simp
  have inj': "inj_on (expressifyDynamicRoute L) {r \<in> fst ` set entries. isDynamicRoute L r}"
    using "3.prems"(3) by (rule inj_on_subset) auto
  show ?case
  proof (cases "r = route")
    case True
    then have pf: "pf = pf0" using "3.prems"(2,4) by (force simp: image_iff)
    have other: "\<forall>r' v. (r', v) \<in> set entries \<and> isDynamicRoute L r'
                   \<longrightarrow> expressifyDynamicRoute L r' \<noteq> expressifyDynamicRoute L route"
    proof (intro allI impI)
      fix r' v assume a: "(r', v) \<in> set entries \<and> isDynamicRoute L r'"
      then have "r' \<in> fst ` set entries" by force
      then have ne: "r' \<noteq> route" using "3.prems"(2) by auto
      have "r' \<in> {r \<in> fst ` set ((route, Some pf0) # entries). isDynamicRoute L r}"
        using a by force
      moreover have "route \<in> {r \<in> fst ` set ((route, Some pf0) # entries). isDynamicRoute L r}"
        using True "3.prems"(5) by simp
      ultimately show "expressifyDynamicRoute L r' \<noteq> expressifyDynamicRoute L route"
        using inj_onD [OF "3.prems"(3), of r' route] ne by blast
    qed
    from classifyPages_dynamic_other [OF run other]
    show ?thesis using True pf "3.prems"(5) by (simp add: classifyPage_dynamic)
  next
    case False
    then have mem: "(r, Some pf) \<in> set entries" using "3.prems"(4) by simp
    have d: "distinct (map fst entries)" using "3.prems"(2) by simp
    have ne: "isDynamicRoute L route \<Longrightarrow>
                expressifyDynamicRoute L route \<noteq> expressifyDynamicRoute L r"
    proof -
      assume dr: "isDynamicRoute L route"
      have "r \<in> {r \<in> fst ` set ((route, Some pf0) # entries). isDynamicRoute L r}"
        using mem "3.prems"(5) by force
      moreover have "route \<in> {r \<in> fst ` set ((route, Some pf0) # entries). isDynamicRoute L r}"
        using dr by simp
      ultimately show ?thesis
        using inj_onD [OF "3.prems"(3), of route r] False by blast
    qed
    have base: "map_of (dynamic (bucketOf c ?st1)) (expressifyDynamicRoute L r)
                = map_of (dynamic (bucketOf c st)) (expressifyDynamicRoute L r)"
      using ne by (auto simp: classifyPage_dynamic)
    from "3.IH" [OF run d inj' mem "3.prems"(5)] base show ?thesis by simp
  qed
qed

lemma classifyPages_dynamic_keys:
  "classifyPages L es st = Inr st' \<Longrightarrow> map_of (dynamic (bucketOf c st')) k = Some e \<Longrightarrow>
   map_of (dynamic (bucketOf c st)) k = Some e \<or>
   (\<exists>r pf. (r, Some pf) \<in> set es \<and> isDynamicRoute L r \<and> k = expressifyDynamicRoute L r
            \<and> categoryOf pf = c)"
proof (induction L es st rule: classifyPages.induct)
  case (1 L st)
  then show ?case by simp
next
  case (2 L route entries st)
  then show ?case by simp
next
  case (3 L route pf entries st)
  from 3 have "map_of (dynamic (bucketOf c (classifyPage L route pf st))) k = Some e \<or>
    (\<exists>r pf. (r, Some pf) \<in> set entries \<and> isDynamicRoute L r \<and> k = expressifyDynamicRoute L r
            \<and> categoryOf pf = c)" by simp
  then show ?case
    by (auto simp: classifyPage_dynamic split: if_splits)
qed

lemma prepareBuildManifests_groups:
  assumes "prepareBuildManifests L defaults b fs = Inr (M, calls)"
  shows "\<exists>res st. readPagesManifest L b fs = Inr res
     \<and> classifyPages L res \<lparr>ssrPages = emptyGroup, htmlPages = emptyGroup, apiPages = emptyGroup\<rparr>
         = Inr st
     \<and> (\<forall>c. groupOf c M = bucketOf c st)"
proof -
  from assms obtain res bid st where
    r: "readPagesManifest L b fs = Inr res"
    and c: "classifyPages L res \<lparr>ssrPages = emptyGroup, htmlPages = emptyGroup, apiPages = emptyGroup\<rparr>
         = Inr st"
    and m: "pages (defaultBuildManifest M) = \<lparr>ssr = ssrPages st, html = htmlPages st\<rparr>"
           "apis (apiBuildManifest M) = apiPages st"
    by (auto simp: prepareBuildManifests_def andThen_def Let_def
        split: sum.splits if_splits content.splits prod.splits)
  have "groupOf c M = bucketOf c st" for c
    using m by (cases c) simp_all
  with r c show ?thesis by blast
qed

lemma readPagesManifest_sorted:
  assumes "readFile fs (join (serverlessDir b) [''pages-manifest.json''])
             = Inr (PagesManifestFile pm)"
  shows "readPagesManifest L b fs = Inr (sortPagesManifest L pm)"
proof -
  have "pathExists fs (join (serverlessDir b) [''pages-manifest.json''])"
    using assms by (auto simp: readFile_def pathExists_def split: option.splits)
  then show ?thesis using assms by (simp add: readPagesManifest_def Let_def)
qed

lemma sortPagesManifest_distinct:
  assumes "distinct (map fst pm)"
    and "distinct (getSortedRoutes L (filter (isDynamicRoute L) (map fst pm)))"
    and "set (getSortedRoutes L (filter (isDynamicRoute L) (map fst pm)))
           = set (filter (isDynamicRoute L) (map fst pm))"
  shows "distinct (map fst (sortPagesManifest L pm))"
    and "fst ` set (sortPagesManifest L pm) = fst ` set pm"
proof -
  have ks: "map fst (sortPagesManifest L pm) =
           filter (\<lambda>r. \<not> isDynamicRoute L r) (map fst pm)
           @ getSortedRoutes L (filter (isDynamicRoute L) (map fst pm))"
    using sortPagesManifest_keys [OF assms] .
  show "distinct (map fst (sortPagesManifest L pm))"
    unfolding ks using assms by auto
  have "set (map fst (sortPagesManifest L pm)) = set (map fst pm)"
    unfolding ks using assms(3) by auto
  then show "fst ` set (sortPagesManifest L pm) = fst ` set pm" by simp
qed

text \<open>
  The classification as the code does it. Every entry (route, page file) of the pages
  manifest is bucketed by \<open>categoryOf\<close> of its page file: ending in \<open>.html\<close> it goes to the
  html group, otherwise starting with the characters \<open>pages/api\<close> to the API group,
  otherwise to the ssr group; within that group it lands in the dynamic sub-bucket, keyed
  by the expressified route and holding the file and the regex compiled from the
  expressified route, iff the route is dynamic, and in the non-dynamic sub-bucket, the
  route mapped to the file, otherwise. No other group holds the entry, and every key of a
  dynamic sub-bucket stems from a dynamic route of that category. (For the manifests that
  \<open>prepareBuildManifests\<close> returns, for any \<open>isDynamicRoute\<close>, and an
  \<open>expressifyDynamicRoute\<close> that keeps the dynamic routes of the manifest apart.)
\<close>

lemma prepareBuildManifests_buckets:
  assumes prep: "prepareBuildManifests L defaults b fs = Inr (M, calls)"
    and manifest: "readFile fs (join (serverlessDir b) [''pages-manifest.json''])
                   = Inr (PagesManifestFile pm)"
    and keys: "distinct (map fst pm)"
    and sorter: "distinct (getSortedRoutes L (filter (isDynamicRoute L) (map fst pm)))
       \<and> set (getSortedRoutes L (filter (isDynamicRoute L) (map fst pm)))
           = set (filter (isDynamicRoute L) (map fst pm))"
    and inj: "inj_on (expressifyDynamicRoute L) {r \<in> fst ` set pm. isDynamicRoute L r}"
  shows "(\<forall>route pf. (route, pf) \<in> set pm \<longrightarrow>
           (if isDynamicRoute L route
            then (\<forall>c. map_of (dynamic (groupOf c M)) (expressifyDynamicRoute L route) =
                       (if c = categoryOf pf
                        then Some \<lparr>pageFile = pf,
                                   regex = pathToRegexStr L (expressifyDynamicRoute L route)\<rparr>
                        else None))
                 \<and> (\<forall>c. map_of (nonDynamic (groupOf c M)) route = None)
            else (\<forall>c. map_of (nonDynamic (groupOf c M)) route =
                       (if c = categoryOf pf then Some pf else None))))
       \<and> (\<forall>c k. k \<in> fst ` set (dynamic (groupOf c M)) \<longrightarrow>
             (\<exists>route pf. (route, pf) \<in> set pm \<and> isDynamicRoute L route
                \<and> k = expressifyDynamicRoute L route \<and> categoryOf pf = c))"
proof -
  let ?res = "sortPagesManifest L pm"
  let ?init = "\<lparr>ssrPages = emptyGroup, htmlPages = emptyGroup, apiPages = emptyGroup\<rparr>"
  from prepareBuildManifests_groups [OF prep] readPagesManifest_sorted [OF manifest, of L]
  obtain st where run: "classifyPages L ?res ?init = Inr st"
    and groups: "\<And>c. groupOf c M = bucketOf c st"
    by auto
  have dres: "distinct (map fst ?res)" and kres: "fst ` set ?res = fst ` set pm"
    using sortPagesManifest_distinct [OF keys] sorter by blast+
  have lookup: "map_of ?res r = (if r \<in> set (map fst pm) then Some (map_of pm r) else None)" for r
    using sortPagesManifest_map_of [of L pm r] sorter by blast
  have init: "map_of (nonDynamic (bucketOf c ?init)) = Map.empty"
    "map_of (dynamic (bucketOf c ?init)) = Map.empty" for c
    by (cases c; simp add: emptyGroup_def)+
  have inj': "inj_on (expressifyDynamicRoute L) {r \<in> fst ` set ?res. isDynamicRoute L r}"
    using inj kres by simp
  have entry: "(if isDynamicRoute L route
            then (\<forall>c. map_of (dynamic (groupOf c M)) (expressifyDynamicRoute L route) =
                       (if c = categoryOf pf
                        then Some \<lparr>pageFile = pf,
                                   regex = pathToRegexStr L (expressifyDynamicRoute L route)\<rparr>
                        else None))
                 \<and> (\<forall>c. map_of (nonDynamic (groupOf c M)) route = None)
            else (\<forall>c. map_of (nonDynamic (groupOf c M)) route =
                       (if c = categoryOf pf then Some pf else None)))"
    if mem: "(route, pf) \<in> set pm" for route pf
  proof -
    have mp: "map_of pm route = Some pf" using mem keys by simp
    have "route \<in> set (map fst pm)" using mem by force
    then have mr: "map_of ?res route = Some (Some pf)" using lookup mp by simp
    then have memres: "(route, Some pf) \<in> set ?res" by (rule map_of_SomeD)
    have nd: "map_of (nonDynamic (groupOf c M)) route =
                (if \<not> isDynamicRoute L route \<and> categoryOf pf = c then Some pf else None)" for c
      using classifyPages_nonDynamic [OF run dres, of c route] mr groups init by simp
    show ?thesis
    proof (cases "isDynamicRoute L route")
      case True
      have "map_of (dynamic (groupOf c M)) (expressifyDynamicRoute L route) =
              (if c = categoryOf pf
               then Some \<lparr>pageFile = pf, regex = pathToRegexStr L (expressifyDynamicRoute L route)\<rparr>
               else None)" for c
        using classifyPages_dynamic [OF run dres inj' memres True, of c] groups init by auto
      with True nd show ?thesis by simp
    next
      case False
      with nd show ?thesis by auto
    qed
  qed
  have dkeys: "\<exists>route pf. (route, pf) \<in> set pm \<and> isDynamicRoute L route
                \<and> k = expressifyDynamicRoute L route \<and> categoryOf pf = c"
    if k: "k \<in> fst ` set (dynamic (groupOf c M))" for c k
  proof -
    from k obtain e where "map_of (dynamic (bucketOf c st)) k = Some e"
      using groups by (metis domD dom_map_of_conv_image_fst)
    from classifyPages_dynamic_keys [OF run this] init
    obtain r pf where r: "(r, Some pf) \<in> set ?res" "isDynamicRoute L r"
      "k = expressifyDynamicRoute L r" "categoryOf pf = c"
      by auto
    have "map_of ?res r = Some (Some pf)" using r(1) dres by simp
    then have "map_of pm r = Some pf" using lookup [of r] by (simp split: if_splits)
    then have "(r, pf) \<in> set pm" by (rule map_of_SomeD)
    with r show ?thesis by blast
  qed
  show ?thesis using entry dkeys by blast
qed


lemma prepareBuildManifests_buckets_example:
  "\<exists>M calls. prepareBuildManifests (exampleLib examplePages) exampleDefaults exampleBuilder
                (compiledFs examplePages) = Inr (M, calls)
     \<and> map_of (dynamic (groupOf SsrPage M)) ''/blog/:id''
         = Some \<lparr>pageFile = ''pages/blog/[id].js'', regex = ''^/blog/:id$''\<rparr>
     \<and> map_of (dynamic (groupOf ApiRoute M)) ''/blog/:id'' = None
     \<and> map_of (nonDynamic (groupOf ApiRoute M)) ''/api/hello'' = Some ''pages/api/hello.js''
     \<and> map_of (nonDynamic (groupOf HtmlPage M)) ''/terms'' = Some ''pages/terms.html''
     \<and> map_of (nonDynamic (groupOf SsrPage M)) ''/terms'' = None"
proof -
  let ?L = "exampleLib examplePages"
  let ?fs = "compiledFs examplePages"
  have ret: "case prepareBuildManifests ?L exampleDefaults exampleBuilder ?fs of Inl e \<Rightarrow> False | Inr x \<Rightarrow> True"
    by code_simp
  then obtain M calls where prep: "prepareBuildManifests ?L exampleDefaults exampleBuilder ?fs = Inr (M, calls)"
    by (auto split: sum.splits)
  have manifest: "readFile ?fs (join (serverlessDir exampleBuilder) [''pages-manifest.json''])
                   = Inr (PagesManifestFile examplePages)"
    by (simp add: readFile_def compiledFs_def compiledOutput_def exampleFs_def exampleBuilder_def
        newBuilder_def join_def examplePages_def isApiPage_def)
  have keys: "distinct (map fst examplePages)"
    by (simp add: examplePages_def)
  have f: "filter (isDynamicRoute ?L) (map fst examplePages)
           = [''/[...all]'', ''/blog/[id]'', ''/api/users/[uid]'', ''/docs/[page]'']"
    by code_simp
  have s: "getSortedRoutes ?L [''/[...all]'', ''/blog/[id]'', ''/api/users/[uid]'', ''/docs/[page]'']
           = [''/api/users/[uid]'', ''/blog/[id]'', ''/docs/[page]'', ''/[...all]'']"
    by code_simp
  have sorter: "distinct (getSortedRoutes ?L (filter (isDynamicRoute ?L) (map fst examplePages)))
       \<and> set (getSortedRoutes ?L (filter (isDynamicRoute ?L) (map fst examplePages)))
           = set (filter (isDynamicRoute ?L) (map fst examplePages))"
    unfolding f s by auto
  have "distinct (map (expressifyDynamicRoute ?L)
                    (filter (isDynamicRoute ?L) (map fst examplePages)))"
    by code_simp
  then have "inj_on (expressifyDynamicRoute ?L)
               (set (filter (isDynamicRoute ?L) (map fst examplePages)))"
    by (simp add: distinct_map)
  moreover have "set (filter (isDynamicRoute ?L) (map fst examplePages))
                 = {r \<in> fst ` set examplePages. isDynamicRoute ?L r}"
    by auto
  ultimately have inj: "inj_on (expressifyDynamicRoute ?L)
                          {r \<in> fst ` set examplePages. isDynamicRoute ?L r}"
    by simp
  have e1: "(''/blog/[id]'', ''pages/blog/[id].js'') \<in> set examplePages"
    and e2: "(''/api/hello'', ''pages/api/hello.js'') \<in> set examplePages"
    and e3: "(''/terms'', ''pages/terms.html'') \<in> set examplePages"
    by (simp_all add: examplePages_def)
  have d1: "isDynamicRoute ?L ''/blog/[id]''" "\<not> isDynamicRoute ?L ''/api/hello''"
    "\<not> isDynamicRoute ?L ''/terms''"
    by code_simp+
  have x1: "expressifyDynamicRoute ?L ''/blog/[id]'' = ''/blog/:id''"
    "pathToRegexStr ?L ''/blog/:id'' = ''^/blog/:id$''"
    by code_simp+
  have c1: "categoryOf ''pages/blog/[id].js'' = SsrPage" "categoryOf ''pages/api/hello.js'' = ApiRoute"
    "categoryOf ''pages/terms.html'' = HtmlPage"
    by code_simp+
  note t = prepareBuildManifests_buckets [OF prep manifest keys sorter inj]
  from t e1 d1(1) have
    "\<forall>c. map_of (dynamic (groupOf c M)) (expressifyDynamicRoute ?L ''/blog/[id]'') =
         (if c = categoryOf ''pages/blog/[id].js''
          then Some \<lparr>pageFile = ''pages/blog/[id].js'',
                     regex = pathToRegexStr ?L (expressifyDynamicRoute ?L ''/blog/[id]'')\<rparr>
          else None)"
    by fastforce
  note q1 = this [rule_format]
  have r1: "map_of (dynamic (groupOf SsrPage M)) ''/blog/:id''
         = Some \<lparr>pageFile = ''pages/blog/[id].js'', regex = ''^/blog/:id$''\<rparr>"
    "map_of (dynamic (groupOf ApiRoute M)) ''/blog/:id'' = None"
    using q1 [of SsrPage] q1 [of ApiRoute] unfolding x1 c1 by simp_all
  from t e2 d1(2) have
    "\<forall>c. map_of (nonDynamic (groupOf c M)) ''/api/hello'' =
         (if c = categoryOf ''pages/api/hello.js'' then Some ''pages/api/hello.js'' else None)"
    by fastforce
  note q2 = this [rule_format]
  have r2: "map_of (nonDynamic (groupOf ApiRoute M)) ''/api/hello'' = Some ''pages/api/hello.js''"
    using q2 [of ApiRoute] unfolding c1 by simp
  from t e3 d1(3) have
    "\<forall>c. map_of (nonDynamic (groupOf c M)) ''/terms'' =
         (if c = categoryOf ''pages/terms.html'' then Some ''pages/terms.html'' else None)"
    by fastforce
  note q3 = this [rule_format]
  have r3: "map_of (nonDynamic (groupOf HtmlPage M)) ''/terms'' = Some ''pages/terms.html''"
    "map_of (nonDynamic (groupOf SsrPage M)) ''/terms'' = None"
    using q3 [of HtmlPage] q3 [of SsrPage] unfolding c1 by simp_all
  show ?thesis using prep r1 r2 r3 by blast
qed


text \<open>
  C3. A page file outside the API namespace whose name starts with the characters
  \<open>pages/api\<close>: the application with the pages \<open>index\<close> and \<open>apiary\<close> has no file under the
  directory \<open>pages/api\<close>, and its page file \<open>pages/apiary.js\<close> does not end in \<open>.html\<close>.
  \<open>prepareBuildManifests\<close> returns the manifests in which the route \<open>/apiary\<close> is in the
  non-dynamic bucket of the API group and not in that of the ssr group, where a page
  outside the API namespace belongs.
\<close>

theorem prepareBuildManifests_apiary:
  "prepareBuildManifests apiaryLib exampleDefaults exampleBuilder apiaryFs
     = Inr (apiaryManifests, [(''phase-production-server'', [])])
   \<and> map_of (nonDynamic (apis (apiBuildManifest apiaryManifests))) ''/apiary''
       = Some ''pages/apiary.js''
   \<and> map_of (nonDynamic (ssr (pages (defaultBuildManifest apiaryManifests)))) ''/apiary'' = None
   \<and> \<not> prefix ''pages/api/'' ''pages/apiary.js''
   \<and> \<not> isHtmlPage ''pages/apiary.js''
   \<and> \<not> pathExists apiaryFs [''app'', ''.next'', ''serverless'', ''pages'', ''api'']"
  by code_simp

text \<open>
  C2. When the build manifests are prepared, the trailing-slash flag comes from the
  module \<open>next.config.js\<close>: the \<open>trailingSlash\<close> field of a plain object; for a function, the
  \<open>trailingSlash\<close> field of the result of its single invocation with the phase
  \<open>phase-production-server\<close> and an empty options object; and \<open>false\<close> in every other case
  (no configuration file, a value without the field, a field that is \<open>undefined\<close> or \<open>null\<close>).
  A plain value is never invoked.
\<close>

theorem prepareBuildManifests_trailingSlash:
  assumes prep: "prepareBuildManifests L defaults b fs = Inr (M, calls)"
  shows "(\<not> pathExists fs (join (nextConfigDir b) [''next.config.js'']) \<longrightarrow>
            trailingSlash (defaultBuildManifest M) = JBool False \<and> calls = [])
     \<and> (\<forall>obj. readFile fs (join (nextConfigDir b) [''next.config.js''])
                 = Inr (NextConfigModule (Plain (CObject obj))) \<longrightarrow>
            calls = [] \<and>
            trailingSlash (defaultBuildManifest M) =
              (if cfgTrailingSlash obj = JUndefined \<or> cfgTrailingSlash obj = JNull
               then JBool False else cfgTrailingSlash obj))
     \<and> (\<forall>f. readFile fs (join (nextConfigDir b) [''next.config.js''])
               = Inr (NextConfigModule (Producer f)) \<longrightarrow>
            calls = [(''phase-production-server'', [])] \<and>
            trailingSlash (defaultBuildManifest M) =
              (case f ''phase-production-server'' [] of
                 CObject obj \<Rightarrow>
                   (if cfgTrailingSlash obj = JUndefined \<or> cfgTrailingSlash obj = JNull
                    then JBool False else cfgTrailingSlash obj)
               | _ \<Rightarrow> JBool False))
     \<and> (\<forall>v. readFile fs (join (nextConfigDir b) [''next.config.js''])
               = Inr (NextConfigModule (Plain v)) \<and> (\<forall>obj. v \<noteq> CObject obj) \<longrightarrow>
            calls = [] \<and> trailingSlash (defaultBuildManifest M) = JBool False)"
proof -
  let ?p = "join (nextConfigDir b) [''next.config.js'']"
  have ex: "pathExists fs ?p" if "readFile fs ?p = Inr c" for c
    using that by (auto simp: readFile_def pathExists_def split: option.splits)
  have absent: "trailingSlash (defaultBuildManifest M) = JBool False \<and> calls = []"
    if "\<not> pathExists fs ?p"
    using prep that
    by (auto simp: prepareBuildManifests_def andThen_def Let_def split: sum.splits)
  have present: "calls = snd (normaliseNextConfig cfg) \<and>
      trailingSlash (defaultBuildManifest M) = trailingSlashOf (fst (normaliseNextConfig cfg))"
    if "readFile fs ?p = Inr (NextConfigModule cfg)" for cfg
    using prep that ex [OF that]
    by (auto simp: prepareBuildManifests_def andThen_def Let_def split: sum.splits prod.splits)
  have obj: "calls = [] \<and> trailingSlash (defaultBuildManifest M) =
              (if cfgTrailingSlash obj = JUndefined \<or> cfgTrailingSlash obj = JNull
               then JBool False else cfgTrailingSlash obj)"
    if "readFile fs ?p = Inr (NextConfigModule (Plain (CObject obj)))" for obj
    using present [OF that] by (simp add: normaliseNextConfig_def trailingSlashOf_def Let_def)
  have fn: "calls = [(''phase-production-server'', [])] \<and>
            trailingSlash (defaultBuildManifest M) =
              (case f ''phase-production-server'' [] of
                 CObject obj \<Rightarrow>
                   (if cfgTrailingSlash obj = JUndefined \<or> cfgTrailingSlash obj = JNull
                    then JBool False else cfgTrailingSlash obj)
               | _ \<Rightarrow> JBool False)"
    if "readFile fs ?p = Inr (NextConfigModule (Producer f))" for f
    using present [OF that]
    by (simp add: normaliseNextConfig_def trailingSlashOf_def Let_def split: ConfigValue.splits)
  have other: "calls = [] \<and> trailingSlash (defaultBuildManifest M) = JBool False"
    if "readFile fs ?p = Inr (NextConfigModule (Plain v))" "\<forall>obj. v \<noteq> CObject obj" for v
    using present [OF that(1)] that(2)
    by (cases v) (simp_all add: normaliseNextConfig_def trailingSlashOf_def Let_def)
  show ?thesis using absent obj fn other by blast
qed

theorem prepareBuildManifests_trailingSlash_witness:
  "\<exists>M calls. prepareBuildManifests (exampleLib examplePages) exampleDefaults exampleBuilder
                (compiledFs examplePages) = Inr (M, calls)
     \<and> calls = [(''phase-production-server'', [])]
     \<and> trailingSlash (defaultBuildManifest M) = JBool True"
proof -
  let ?L = "exampleLib examplePages"
  let ?fs = "compiledFs examplePages"
  have ret: "case prepareBuildManifests ?L exampleDefaults exampleBuilder ?fs of Inl e \<Rightarrow> False | Inr x \<Rightarrow> True"
    by code_simp
  then obtain M calls where prep: "prepareBuildManifests ?L exampleDefaults exampleBuilder ?fs = Inr (M, calls)"
    by (auto split: sum.splits)
  have cfg: "readFile ?fs (join (nextConfigDir exampleBuilder) [''next.config.js''])
      = Inr (NextConfigModule (Producer (\<lambda>phase options. CObject \<lparr>cfgTrailingSlash = JBool True\<rparr>)))"
    by (simp add: readFile_def compiledFs_def compiledOutput_def exampleFs_def exampleBuilder_def
        newBuilder_def join_def examplePages_def isApiPage_def)
  from prepareBuildManifests_trailingSlash [OF prep] cfg
  have "calls = [(''phase-production-server'', [])] \<and>
        trailingSlash (defaultBuildManifest M) = JBool True"
    by simp
  with prep show ?thesis by blast
qed

section \<open>Properties of the bundle assembly\<close>



subsection \<open>What a filtered copy carries over\<close>

lemma fold_mkdirs_other:
  "p \<notin> set ds \<Longrightarrow>
   map_of (fold (\<lambda>d acc. if map_of acc d = None then AList.update d Dir acc else acc) ds fs) p
     = map_of fs p"
  by (induction ds arbitrary: fs) (auto simp: update_conv')

lemma mkdirs_other:
  assumes "mkdirs d fs = Inr fs1" "p \<notin> set (prefixes d)"
  shows "map_of fs1 p = map_of fs p"
proof -
  from assms(1) have "fs1 = fold (\<lambda>d acc. if map_of acc d = None then AList.update d Dir acc else acc)
                     (prefixes d) fs"
    by (auto simp: mkdirs_def split: if_splits)
  then show ?thesis using fold_mkdirs_other [OF assms(2)] by simp
qed

lemma fold_copy_at:
  assumes "\<forall>q \<in> set qs. g q = g q0 \<longrightarrow> q = q0"
  shows "map_of (fold (\<lambda>q acc. case map_of fs q of
                            None \<Rightarrow> acc
                          | Some m \<Rightarrow> AList.update (g q) m acc) qs acc) (g q0) =
     (if q0 \<in> set qs
      then (case map_of fs q0 of None \<Rightarrow> map_of acc (g q0) | Some m \<Rightarrow> Some m)
      else map_of acc (g q0))"
  using assms
proof (induction qs arbitrary: acc)
  case Nil
  then show ?case by simp
next
  case (Cons a qs)
  let ?f = "\<lambda>q acc. case map_of fs q of None \<Rightarrow> acc | Some m \<Rightarrow> AList.update (g q) m acc"
  have inj: "\<forall>q \<in> set qs. g q = g q0 \<longrightarrow> q = q0" using Cons.prems by simp
  have step: "map_of (?f a acc) (g q0) =
                (if a = q0 then (case map_of fs q0 of None \<Rightarrow> map_of acc (g q0) | Some m \<Rightarrow> Some m)
                 else map_of acc (g q0))"
    using Cons.prems by (auto simp: update_conv' split: option.splits)
  show ?case
    using Cons.IH [OF inj, of "?f a acc"] step
    by (auto split: option.splits)
qed

lemma copy_cases_flt:
  assumes "copy flt src dst fs = Inr fs'"
  shows "(\<not> flt src \<and> fs' = fs) \<or>
         (flt src \<and> (\<exists>n fs1. map_of fs src = Some n \<and> mkdirs (butlast dst) fs = Inr fs1
                         \<and> fs' = copyEntries flt src dst fs fs1))"
  using assms
  by (auto simp: copy_def andThen_def split: option.splits if_splits sum.splits)

lemma chain_accepts:
  "list_all flt (map (\<lambda>k. take k (src @ rel)) [length src ..< Suc (length (src @ rel))])
     \<longleftrightarrow> (\<forall>k \<le> length rel. flt (src @ take k rel))"
proof -
  have "(\<forall>j \<in> {length src ..< Suc (length src + length rel)}. flt (take j (src @ rel)))
          \<longleftrightarrow> (\<forall>k \<le> length rel. flt (src @ take k rel))"
  proof
    assume a: "\<forall>j \<in> {length src ..< Suc (length src + length rel)}. flt (take j (src @ rel))"
    show "\<forall>k \<le> length rel. flt (src @ take k rel)"
    proof (intro allI impI)
      fix k assume "k \<le> length rel"
      then have "length src + k \<in> {length src ..< Suc (length src + length rel)}" by simp
      with a have "flt (take (length src + k) (src @ rel))" by blast
      then show "flt (src @ take k rel)" by simp
    qed
  next
    assume b: "\<forall>k \<le> length rel. flt (src @ take k rel)"
    show "\<forall>j \<in> {length src ..< Suc (length src + length rel)}. flt (take j (src @ rel))"
    proof
      fix j assume j: "j \<in> {length src ..< Suc (length src + length rel)}"
      then have "j - length src \<le> length rel" by auto
      with b have "flt (src @ take (j - length src) rel)" by blast
      moreover have "take j (src @ rel) = src @ take (j - length src) rel"
        using j by simp
      ultimately show "flt (take j (src @ rel))" by simp
    qed
  qed
  moreover have "list_all flt (map (\<lambda>k. take k (src @ rel)) [length src ..< Suc (length (src @ rel))])
      \<longleftrightarrow> (\<forall>j \<in> {length src ..< Suc (length src + length rel)}. flt (take j (src @ rel)))"
    by (simp only: list_all_iff set_map set_upt length_append) blast
  ultimately show ?thesis by (rule trans [rotated])
qed

lemma copy_entry:
  assumes run: "copy flt src dst fs = Inr fs'"
    and entry: "map_of fs (src @ rel) = Some n"
    and fresh: "\<forall>q. prefix dst q \<longrightarrow> map_of fs q = None"
  shows "map_of fs' (dst @ rel) =
           (if \<forall>k \<le> length rel. flt (src @ take k rel) then Some n else None)"
proof -
  have none: "map_of fs (dst @ rel) = None" using fresh by simp
  from copy_cases_flt [OF run] show ?thesis
  proof
    assume a: "\<not> flt src \<and> fs' = fs"
    then have "\<not> (\<forall>k \<le> length rel. flt (src @ take k rel))"
      by (auto intro: exI [of _ 0])
    with a none show ?thesis by simp
  next
    assume "flt src \<and> (\<exists>n fs1. map_of fs src = Some n \<and> mkdirs (butlast dst) fs = Inr fs1
                         \<and> fs' = copyEntries flt src dst fs fs1)"
    then obtain fs1 where mk: "mkdirs (butlast dst) fs = Inr fs1"
      and fs': "fs' = copyEntries flt src dst fs fs1"
      by blast
    let ?qs = "filter (\<lambda>q. prefix src q \<and>
                        list_all flt (map (\<lambda>k. take k q) [length src ..< Suc (length q)]))
                  (map fst fs)"
    let ?g = "\<lambda>q. dst @ drop (length src) q"
    have "dst @ rel \<notin> set (prefixes (butlast dst))"
    proof
      assume "dst @ rel \<in> set (prefixes (butlast dst))"
      then have p: "prefix (dst @ rel) (butlast dst)" by (simp add: in_set_prefixes)
      then have "length (dst @ rel) \<le> length (butlast dst)" by (rule prefix_length_le)
      then have "length dst + length rel \<le> length dst - 1" by (simp only: length_append length_butlast)
      then have "dst = []" by (cases dst) auto
      with fresh have "map_of fs (src @ rel) = None" by simp
      with entry show False by simp
    qed
    then have base: "map_of fs1 (dst @ rel) = None"
      using mkdirs_other [OF mk] none by simp
    have inj: "\<forall>q \<in> set ?qs. ?g q = ?g (src @ rel) \<longrightarrow> q = src @ rel"
      by (auto simp: prefix_def)
    have mem: "src @ rel \<in> set ?qs \<longleftrightarrow> (\<forall>k \<le> length rel. flt (src @ take k rel))"
    proof -
      have "(src @ rel, n) \<in> set fs" using entry by (rule map_of_SomeD)
      then have "src @ rel \<in> set (map fst fs)" by force
      then show ?thesis using chain_accepts [of flt src rel] by simp
    qed
    have "map_of fs' (?g (src @ rel)) =
            (if src @ rel \<in> set ?qs
             then (case map_of fs (src @ rel) of None \<Rightarrow> map_of fs1 (?g (src @ rel))
                   | Some m \<Rightarrow> Some m)
             else map_of fs1 (?g (src @ rel)))"
      unfolding fs' copyEntries_def by (rule fold_copy_at [OF inj])
    then show ?thesis using mem entry base by simp
  qed
qed


text \<open>
  The filter of the copy of the pages directory into the page-rendering bundle, as the
  code has it: it accepts a path iff the POSIX form of the path does not contain the
  characters \<open>pages/api\<close>, its extension is neither \<open>.html\<close> nor \<open>.json\<close>, and it is not a
  prerender-only JS module, the last condition being waived when \<open>hasAPIRoutes\<close> holds. A
  file is a prerender-only JS module iff its extension is \<open>.js\<close> and its route (the path
  without the extension, with a leading slash, \<open>/index\<close> being the root) is listed in the
  prerender manifest. When the copy succeeds into a target that did not exist, an entry of
  the pages directory whose directories the filter accepts is in the target, unchanged and
  at the same relative path, iff the filter accepts it.
\<close>

lemma pagesFilter_accepts:
  "(pagesFilter L b prerenderManifest hasAPIRoutes file \<longleftrightarrow>
      \<not> sublist ''pages/api'' (pathToPosix L (pathString file))
      \<and> extname (pathString file) \<noteq> ''.html''
      \<and> extname (pathString file) \<noteq> ''.json''
      \<and> (\<not> isPrerenderedJSFile prerenderManifest
              (relative (join (serverlessDir b) [''pages'']) file)
          \<or> hasAPIRoutes))
   \<and> (isPrerenderedJSFile prerenderManifest relativePageFile \<longleftrightarrow>
        extname relativePageFile = ''.js''
        \<and> (\<exists>rs. routes prerenderManifest = Some rs
                \<and> pageRouteOf relativePageFile \<in> fst ` set rs))
   \<and> (\<forall>fs fs' dst rel n.
        copy (pagesFilter L b prerenderManifest hasAPIRoutes)
          (join (serverlessDir b) [''pages'']) dst fs = Inr fs'
        \<and> map_of fs (join (serverlessDir b) [''pages''] @ rel) = Some n
        \<and> (\<forall>q. prefix dst q \<longrightarrow> map_of fs q = None)
        \<and> (\<forall>k < length rel. pagesFilter L b prerenderManifest hasAPIRoutes
                               (join (serverlessDir b) [''pages''] @ take k rel))
        \<longrightarrow> map_of fs' (dst @ rel) =
              (if pagesFilter L b prerenderManifest hasAPIRoutes
                    (join (serverlessDir b) [''pages''] @ rel)
               then Some n else None))"
proof -
  have stem: "rev (drop 3 (rev s)) = take (length s - 3) s" for s :: string
    by (simp add: rev_drop)
  have slashed: "(if take 1 t = ''/'' then t else CHR ''/'' # t)
                 = (if prefix ''/'' t then t else ''/'' @ t)" for t :: string
    by (cases t) auto
  have route: "pageRouteOf s =
      (let pageRoute = take (length s - 3) s;
           pageRoute = (if prefix ''/'' pageRoute then pageRoute else ''/'' @ pageRoute)
       in if pageRoute = ''/index'' then ''/'' else pageRoute)" for s
    unfolding pageRouteOf_def stem slashed by (simp add: Let_def)
  have pre: "isPrerenderedJSFile prerenderManifest relativePageFile \<longleftrightarrow>
        extname relativePageFile = ''.js''
        \<and> (\<exists>rs. routes prerenderManifest = Some rs
                \<and> pageRouteOf relativePageFile \<in> fst ` set rs)"
    unfolding route
    by (auto simp: isPrerenderedJSFile_def Let_def map_of_eq_None_iff split: option.splits)
  have flt: "pagesFilter L b prerenderManifest hasAPIRoutes file \<longleftrightarrow>
      \<not> sublist ''pages/api'' (pathToPosix L (pathString file))
      \<and> extname (pathString file) \<noteq> ''.html''
      \<and> extname (pathString file) \<noteq> ''.json''
      \<and> (\<not> isPrerenderedJSFile prerenderManifest
              (relative (join (serverlessDir b) [''pages'']) file)
          \<or> hasAPIRoutes)"
    by (auto simp: pagesFilter_def Let_def)
  let ?flt = "pagesFilter L b prerenderManifest hasAPIRoutes"
  let ?src = "join (serverlessDir b) [''pages'']"
  have cp: "map_of fs' (dst @ rel) = (if ?flt (?src @ rel) then Some n else None)"
    if run: "copy ?flt ?src dst fs = Inr fs'"
      and entry: "map_of fs (?src @ rel) = Some n"
      and fresh: "\<forall>q. prefix dst q \<longrightarrow> map_of fs q = None"
      and dirs: "\<forall>k < length rel. ?flt (?src @ take k rel)"
    for fs fs' dst rel n
  proof -
    have "(\<forall>k \<le> length rel. ?flt (?src @ take k rel)) \<longleftrightarrow> ?flt (?src @ rel)"
    proof
      assume "\<forall>k \<le> length rel. ?flt (?src @ take k rel)"
      then have "?flt (?src @ take (length rel) rel)" by blast
      then show "?flt (?src @ rel)" by simp
    next
      assume a: "?flt (?src @ rel)"
      show "\<forall>k \<le> length rel. ?flt (?src @ take k rel)"
      proof (intro allI impI)
        fix k assume "k \<le> length rel"
        then consider "k < length rel" | "k = length rel" by linarith
        then show "?flt (?src @ take k rel)" using dirs a by cases simp_all
      qed
    qed
    with copy_entry [OF run entry fresh] show ?thesis by simp
  qed
  show ?thesis using pre flt cp by blast
qed

lemma pagesFilter_accepts_example:
  "\<not> pagesFilter (exampleLib examplePages) exampleBuilder examplePrerender False
        [''app'', ''.next'', ''serverless'', ''pages'', ''terms.js'']
   \<and> pagesFilter (exampleLib examplePages) exampleBuilder examplePrerender True
        [''app'', ''.next'', ''serverless'', ''pages'', ''terms.js'']
   \<and> pagesFilter (exampleLib examplePages) exampleBuilder examplePrerender False
        [''app'', ''.next'', ''serverless'', ''pages'', ''index.js'']
   \<and> \<not> pagesFilter (exampleLib examplePages) exampleBuilder examplePrerender True
        [''app'', ''.next'', ''serverless'', ''pages'', ''terms.html'']
   \<and> \<not> pagesFilter (exampleLib examplePages) exampleBuilder examplePrerender True
        [''app'', ''.next'', ''serverless'', ''pages'', ''api'', ''hello.js'']
   \<and> isPrerenderedJSFile examplePrerender ''terms.js''
   \<and> \<not> isPrerenderedJSFile examplePrerender ''index.js''
   \<and> succeeded (copy (pagesFilter (exampleLib examplePages) exampleBuilder examplePrerender False)
        [''app'', ''.next'', ''serverless'', ''pages'']
        [''app'', ''build'', ''default-lambda'', ''pages''] (compiledFs examplePagesNoApi))
   \<and> map_of (resultFs
        (copy (pagesFilter (exampleLib examplePages) exampleBuilder examplePrerender False)
          [''app'', ''.next'', ''serverless'', ''pages'']
          [''app'', ''build'', ''default-lambda'', ''pages''] (compiledFs examplePagesNoApi)))
        [''app'', ''build'', ''default-lambda'', ''pages'', ''blog'', ''[id].js'']
      = Some (File (Text ''blog''))
   \<and> map_of (resultFs
        (copy (pagesFilter (exampleLib examplePages) exampleBuilder examplePrerender False)
          [''app'', ''.next'', ''serverless'', ''pages'']
          [''app'', ''build'', ''default-lambda'', ''pages''] (compiledFs examplePagesNoApi)))
        [''app'', ''build'', ''default-lambda'', ''pages'', ''terms.js'']
      = None"
proof -
  let ?L = "exampleLib examplePages"
  let ?flt = "pagesFilter ?L exampleBuilder examplePrerender False"
  let ?pages = "join (serverlessDir exampleBuilder) [''pages'']"
  let ?terms = "[''app'', ''.next'', ''serverless'', ''pages'', ''terms.js'']"
  let ?index = "[''app'', ''.next'', ''serverless'', ''pages'', ''index.js'']"
  let ?html = "[''app'', ''.next'', ''serverless'', ''pages'', ''terms.html'']"
  let ?api = "[''app'', ''.next'', ''serverless'', ''pages'', ''api'', ''hello.js'']"
  let ?dst = "[''app'', ''build'', ''default-lambda'', ''pages'']"
  let ?fs = "compiledFs examplePagesNoApi"
  have rel: "relative ?pages ?terms = ''terms.js''" "relative ?pages ?index = ''index.js''"
    by code_simp+
  have ext: "extname ''terms.js'' = ''.js''" "extname ''index.js'' = ''.js''"
    "extname (pathString ?terms) = ''.js''" "extname (pathString ?index) = ''.js''"
    "extname (pathString ?html) = ''.html''"
    by code_simp+
  have api: "\<not> sublist ''pages/api'' (pathToPosix ?L (pathString ?terms))"
    "\<not> sublist ''pages/api'' (pathToPosix ?L (pathString ?index))"
    "sublist ''pages/api'' (pathToPosix ?L (pathString ?api))"
    by code_simp+
  have route: "pageRouteOf ''terms.js'' = ''/terms''" "pageRouteOf ''index.js'' = ''/''"
    by code_simp+
  have rs: "routes examplePrerender
              = Some [(''/terms'', \<lparr>dataRoute = ''/_next/data/id/terms.json''\<rparr>)]"
    by (simp add: examplePrerender_def)
  note t = pagesFilter_accepts [of ?L exampleBuilder examplePrerender]
  have p1: "isPrerenderedJSFile examplePrerender ''terms.js''"
    using t [of False ?terms "''terms.js''"] ext route rs by simp
  have p2: "\<not> isPrerenderedJSFile examplePrerender ''index.js''"
    using t [of False ?index "''index.js''"] ext route rs by simp
  have f1: "\<not> ?flt ?terms"
    using t [of False ?terms "''terms.js''"] p1 rel by simp
  have f2: "pagesFilter ?L exampleBuilder examplePrerender True ?terms"
    using t [of True ?terms "''terms.js''"] ext api by simp
  have f3: "?flt ?index"
    using t [of False ?index "''index.js''"] ext api p2 rel by simp
  have f4: "\<not> pagesFilter ?L exampleBuilder examplePrerender True ?html"
    using t [of True ?html "''index.js''"] ext by simp
  have f5: "\<not> pagesFilter ?L exampleBuilder examplePrerender True ?api"
    using t [of True ?api "''index.js''"] api by simp
  have pg: "?pages = [''app'', ''.next'', ''serverless'', ''pages'']"
    by (simp add: exampleBuilder_def newBuilder_def join_def)
  have ok: "succeeded (copy ?flt [''app'', ''.next'', ''serverless'', ''pages''] ?dst ?fs)"
    by code_simp
  then obtain fs' where run: "copy ?flt ?pages ?dst ?fs = Inr fs'"
    unfolding pg by (auto simp: succeeded_def split: sum.splits)
  then have res: "resultFs (copy ?flt [''app'', ''.next'', ''serverless'', ''pages''] ?dst ?fs) = fs'"
    unfolding pg by (simp add: resultFs_def)
  have fs: "?fs = compiledFs examplePagesNoApi" ..
  have e1: "map_of ?fs (?pages @ [''blog'', ''[id].js'']) = Some (File (Text ''blog''))"
    and e2: "map_of ?fs (?pages @ [''terms.js'']) = Some (File (Text ''terms''))"
    unfolding pg
    by (simp_all add: compiledFs_def compiledOutput_def exampleFs_def examplePagesNoApi_def
        isApiPage_def)
  have "list_all (\<lambda>q. \<not> prefix ?dst q) (map fst ?fs)" by code_simp
  then have fresh: "\<forall>q. prefix ?dst q \<longrightarrow> map_of ?fs q = None"
    by (auto simp: list_all_iff map_of_eq_None_iff)
  have "?flt [''app'', ''.next'', ''serverless'', ''pages'']"
    "?flt [''app'', ''.next'', ''serverless'', ''pages'', ''blog'']"
    "?flt [''app'', ''.next'', ''serverless'', ''pages'', ''blog'', ''[id].js'']"
    by code_simp+
  then have d1: "\<forall>k < length [''blog'', ''[id].js'']. ?flt (?pages @ take k [''blog'', ''[id].js''])"
    and a1: "?flt (?pages @ [''blog'', ''[id].js''])"
    and d2: "\<forall>k < length [''terms.js'']. ?flt (?pages @ take k [''terms.js''])"
    unfolding pg by (simp_all add: less_Suc_eq)
  have a2: "\<not> ?flt (?pages @ [''terms.js''])" using f1 unfolding pg by simp
  from t [of False ?index "''index.js''"] have cp:
    "\<And>fs fs' dst rel n.
        copy ?flt ?pages dst fs = Inr fs' \<Longrightarrow> map_of fs (?pages @ rel) = Some n \<Longrightarrow>
        (\<forall>q. prefix dst q \<longrightarrow> map_of fs q = None) \<Longrightarrow>
        (\<forall>k < length rel. ?flt (?pages @ take k rel)) \<Longrightarrow>
        map_of fs' (dst @ rel) = (if ?flt (?pages @ rel) then Some n else None)"
    by blast
  have c1: "map_of fs' (?dst @ [''blog'', ''[id].js'']) = Some (File (Text ''blog''))"
    using cp [OF run e1 fresh d1] a1 by simp
  have c2: "map_of fs' (?dst @ [''terms.js'']) = None"
    using cp [OF run e2 fresh d2] a2 by simp
  show ?thesis using p1 p2 f1 f2 f3 f4 f5 ok c1 c2 unfolding res by simp
qed


text \<open>
  C5. A page source file outside the API namespace that the assembly of the page-rendering
  bundle does not copy. In the application with the pages \<open>index\<close> and \<open>apiary\<close> there is no
  directory \<open>pages/api\<close>; the file \<open>pages/apiary.js\<close> is a JS module that is neither
  pre-rendered HTML output nor a static-props JSON file nor prerender-only.
  \<open>buildDefaultLambda\<close>, run on the manifests that \<open>prepareBuildManifests\<close> returns, succeeds
  and copies \<open>pages/index.js\<close> into the bundle, but not \<open>pages/apiary.js\<close>. For comparison,
  the other conditions of the copy on the example application: without API pages the
  bundle gets the pages \<open>index.js\<close> and \<open>blog/[id].js\<close> and neither \<open>terms.html\<close> nor
  \<open>terms.json\<close> nor the prerender-only module \<open>terms.js\<close>; with API pages it gets
  \<open>terms.js\<close> as well, and nothing of the directory \<open>pages/api\<close>.
\<close>

theorem buildDefaultLambda_skips_apiary:
  "succeeded (pageBundle apiaryLib exampleDefaults exampleBuilder apiaryFs)
   \<and> isFileNode (map_of apiaryFs [''app'', ''.next'', ''serverless'', ''pages'', ''apiary.js''])
   \<and> \<not> pathExists apiaryFs [''app'', ''.next'', ''serverless'', ''pages'', ''api'']
   \<and> extname (pathString [''app'', ''.next'', ''serverless'', ''pages'', ''apiary.js'']) = ''.js''
   \<and> \<not> isPrerenderedJSFile \<lparr>routes = Some []\<rparr> ''apiary.js''
   \<and> pathExists (resultFs (pageBundle apiaryLib exampleDefaults exampleBuilder apiaryFs))
        [''app'', ''build'', ''default-lambda'', ''pages'', ''index.js'']
   \<and> \<not> pathExists (resultFs (pageBundle apiaryLib exampleDefaults exampleBuilder apiaryFs))
        [''app'', ''build'', ''default-lambda'', ''pages'', ''apiary.js'']
   \<and> succeeded (pageBundle (exampleLib examplePagesNoApi) exampleDefaults exampleBuilder
                  (compiledFs examplePagesNoApi))
   \<and> \<not> pathExists (compiledFs examplePagesNoApi)
        [''app'', ''.next'', ''serverless'', ''pages'', ''api'']
   \<and> pathExists
        (resultFs (pageBundle (exampleLib examplePagesNoApi) exampleDefaults exampleBuilder
                     (compiledFs examplePagesNoApi)))
        [''app'', ''build'', ''default-lambda'', ''pages'', ''index.js'']
   \<and> pathExists
        (resultFs (pageBundle (exampleLib examplePagesNoApi) exampleDefaults exampleBuilder
                     (compiledFs examplePagesNoApi)))
        [''app'', ''build'', ''default-lambda'', ''pages'', ''blog'', ''[id].js'']
   \<and> \<not> pathExists
        (resultFs (pageBundle (exampleLib examplePagesNoApi) exampleDefaults exampleBuilder
                     (compiledFs examplePagesNoApi)))
        [''app'', ''build'', ''default-lambda'', ''pages'', ''terms.html'']
   \<and> \<not> pathExists
        (resultFs (pageBundle (exampleLib examplePagesNoApi) exampleDefaults exampleBuilder
                     (compiledFs examplePagesNoApi)))
        [''app'', ''build'', ''default-lambda'', ''pages'', ''terms.json'']
   \<and> \<not> pathExists
        (resultFs (pageBundle (exampleLib examplePagesNoApi) exampleDefaults exampleBuilder
                     (compiledFs examplePagesNoApi)))
        [''app'', ''build'', ''default-lambda'', ''pages'', ''terms.js'']
   \<and> succeeded (pageBundle (exampleLib examplePages) exampleDefaults exampleBuilder
                  (compiledFs examplePages))
   \<and> pathExists (compiledFs examplePages)
        [''app'', ''.next'', ''serverless'', ''pages'', ''api'', ''hello.js'']
   \<and> pathExists
        (resultFs (pageBundle (exampleLib examplePages) exampleDefaults exampleBuilder
                     (compiledFs examplePages)))
        [''app'', ''build'', ''default-lambda'', ''pages'', ''index.js'']
   \<and> pathExists
        (resultFs (pageBundle (exampleLib examplePages) exampleDefaults exampleBuilder
                     (compiledFs examplePages)))
        [''app'', ''build'', ''default-lambda'', ''pages'', ''terms.js'']
   \<and> \<not> pathExists
        (resultFs (pageBundle (exampleLib examplePages) exampleDefaults exampleBuilder
                     (compiledFs examplePages)))
        [''app'', ''build'', ''default-lambda'', ''pages'', ''terms.html'']
   \<and> \<not> pathExists
        (resultFs (pageBundle (exampleLib examplePages) exampleDefaults exampleBuilder
                     (compiledFs examplePages)))
        [''app'', ''build'', ''default-lambda'', ''pages'', ''terms.json'']
   \<and> \<not> pathExists
        (resultFs (pageBundle (exampleLib examplePages) exampleDefaults exampleBuilder
                     (compiledFs examplePages)))
        [''app'', ''build'', ''default-lambda'', ''pages'', ''api'']
   \<and> \<not> pathExists
        (resultFs (pageBundle (exampleLib examplePages) exampleDefaults exampleBuilder
                     (compiledFs examplePages)))
        [''app'', ''build'', ''default-lambda'', ''pages'', ''api'', ''hello.js'']"
  by code_simp

lemma remove_map_of:
  "map_of (remove p fs) q = (if prefix p q then None else map_of fs q)"
  by (induction fs) (auto simp: remove_def)

lemma fold_remove_map_of:
  "map_of (fold (\<lambda>item. remove (join d [item])) items fs) q =
     (if \<exists>item \<in> set items. prefix (join d [item]) q then None else map_of fs q)"
  by (induction items arbitrary: fs) (auto simp: remove_map_of)

lemma prefix_snoc_iff:
  "prefix (d @ [i]) q \<longleftrightarrow> strict_prefix d q \<and> q ! length d = i"
proof
  assume "prefix (d @ [i]) q"
  then obtain r where "q = d @ i # r" by (auto simp: prefix_def)
  then show "strict_prefix d q \<and> q ! length d = i" by (simp add: strict_prefix_def)
next
  assume a: "strict_prefix d q \<and> q ! length d = i"
  then obtain r where q: "q = d @ r" "r \<noteq> []"
    by (auto simp: strict_prefix_def prefix_def)
  then obtain x xs where "r = x # xs" by (cases r) auto
  with q a show "prefix (d @ [i]) q" by (simp add: prefix_def)
qed

lemma readdir_names:
  assumes "readdir fs d = Inr names"
  shows "set names = {q ! length d | q. q \<in> fst ` set fs \<and> strict_prefix d q}"
  using assms
  by (auto simp: readdir_def image_iff split: option.splits node.splits) force+

text \<open>
  C10. \<open>cleanupDotNext\<close> changes nothing and succeeds when the build directory \<open>.next\<close> does
  not exist. When it is a directory, every entry of it other than \<open>cache\<close> is removed with
  all that is below it, and nothing else changes: \<open>cache\<close> and all below it, the directory
  itself and everything outside it stay as they were.
\<close>

theorem cleanupDotNext_keeps_cache:
  "(\<not> pathExists fs (dotNextDir b) \<longrightarrow> cleanupDotNext b fs = Inr fs)
   \<and> (isDirNode (map_of fs (dotNextDir b)) \<longrightarrow>
        (\<exists>fs'. cleanupDotNext b fs = Inr fs'
           \<and> (\<forall>q. map_of fs' q =
                 (if strict_prefix (dotNextDir b) q \<and> q ! length (dotNextDir b) \<noteq> ''cache''
                  then None else map_of fs q))))"
proof -
  let ?d = "dotNextDir b"
  have absent: "cleanupDotNext b fs = Inr fs" if "\<not> pathExists fs ?d"
    using that by (simp add: cleanupDotNext_def)
  have present: "\<exists>fs'. cleanupDotNext b fs = Inr fs'
           \<and> (\<forall>q. map_of fs' q =
                 (if strict_prefix ?d q \<and> q ! length ?d \<noteq> ''cache''
                  then None else map_of fs q))"
    if dir: "isDirNode (map_of fs ?d)"
  proof -
    from dir have md: "map_of fs ?d = Some Dir"
      by (auto simp: isDirNode_def split: option.splits node.splits)
    then obtain names where names: "readdir fs ?d = Inr names"
      by (simp add: readdir_def)
    let ?items = "filter (\<lambda>fileItem. fileItem \<noteq> ''cache'') names"
    let ?fs' = "fold (\<lambda>fileItem. remove (join ?d [fileItem])) ?items fs"
    have run: "cleanupDotNext b fs = Inr ?fs'"
      using md names by (simp add: cleanupDotNext_def pathExists_def andThen_def)
    have "map_of ?fs' q =
            (if strict_prefix ?d q \<and> q ! length ?d \<noteq> ''cache'' then None else map_of fs q)" for q
    proof -
      have eq: "map_of ?fs' q =
                  (if \<exists>item \<in> set ?items. prefix (join ?d [item]) q then None else map_of fs q)"
        by (rule fold_remove_map_of)
      show ?thesis
      proof (cases "strict_prefix ?d q \<and> q ! length ?d \<noteq> ''cache''")
        case False
        then have "\<not> (\<exists>item \<in> set ?items. prefix (join ?d [item]) q)"
          by (auto simp: join_def prefix_snoc_iff)
        then have "map_of ?fs' q = map_of fs q" unfolding eq by (rule if_not_P)
        also have "\<dots> = (if strict_prefix ?d q \<and> q ! length ?d \<noteq> ''cache''
                         then None else map_of fs q)"
          using False by (rule if_not_P [symmetric])
        finally show ?thesis .
      next
        case True
        have "map_of ?fs' q = None"
        proof (cases "map_of fs q")
          case None
          then show ?thesis unfolding eq by simp
        next
          case (Some n)
          then have "(q, n) \<in> set fs" by (rule map_of_SomeD)
          then have "q \<in> fst ` set fs" by force
          then have "q ! length ?d \<in> set names"
            using True readdir_names [OF names] by auto
          then have "\<exists>item \<in> set ?items. prefix (join ?d [item]) q"
            using True by (auto simp: join_def prefix_snoc_iff)
          then show ?thesis unfolding eq by (rule if_P)
        qed
        also have "None = (if strict_prefix ?d q \<and> q ! length ?d \<noteq> ''cache''
                           then None else map_of fs q)"
          using True by (rule if_P [symmetric])
        finally show ?thesis .
      qed
    qed
    with run show ?thesis by blast
  qed
  show ?thesis using absent present by blast
qed

theorem cleanupDotNext_keeps_cache_witness:
  "cleanupDotNext exampleBuilder [] = Inr []
   \<and> (\<exists>fs'. cleanupDotNext exampleBuilder exampleFs = Inr fs'
        \<and> map_of fs' [''app'', ''.next'', ''cache'', ''webpack''] = Some (File (Text ''cached''))
        \<and> map_of fs' [''app'', ''.next'', ''cache''] = Some Dir
        \<and> map_of fs' [''app'', ''.next''] = Some Dir
        \<and> map_of fs' [''app'', ''.next'', ''BUILD_ID''] = None
        \<and> map_of fs' [''app'', ''.next'', ''serverless''] = None
        \<and> map_of fs' [''app'', ''.next'', ''serverless'', ''stale.js''] = None
        \<and> map_of fs' [''app'', ''public'', ''favicon.ico''] = Some (File (Text ''icon'')))"
proof -
  have d: "dotNextDir exampleBuilder = [''app'', ''.next'']"
    by (simp add: exampleBuilder_def newBuilder_def join_def)
  have a: "\<not> pathExists [] (dotNextDir exampleBuilder)"
    by (simp add: pathExists_def)
  have b: "isDirNode (map_of exampleFs (dotNextDir exampleBuilder))"
    by (simp add: d exampleFs_def isDirNode_def)
  from cleanupDotNext_keeps_cache [of "[]" exampleBuilder] a
  have empty: "cleanupDotNext exampleBuilder [] = Inr []" by blast
  from cleanupDotNext_keeps_cache [of exampleFs exampleBuilder] b obtain fs' where
    run: "cleanupDotNext exampleBuilder exampleFs = Inr fs'"
    and m: "\<And>q. map_of fs' q =
           (if strict_prefix (dotNextDir exampleBuilder) q
               \<and> q ! length (dotNextDir exampleBuilder) \<noteq> ''cache''
            then None else map_of exampleFs q)"
    by blast
  have "map_of fs' [''app'', ''.next'', ''cache'', ''webpack''] = Some (File (Text ''cached''))"
    "map_of fs' [''app'', ''.next'', ''cache''] = Some Dir"
    "map_of fs' [''app'', ''.next''] = Some Dir"
    "map_of fs' [''app'', ''.next'', ''BUILD_ID''] = None"
    "map_of fs' [''app'', ''.next'', ''serverless''] = None"
    "map_of fs' [''app'', ''.next'', ''serverless'', ''stale.js''] = None"
    "map_of fs' [''app'', ''public'', ''favicon.ico''] = Some (File (Text ''icon''))"
    unfolding m d by (simp_all add: exampleFs_def strict_prefix_def)
  with empty run show ?thesis by blast
qed

section \<open>Properties of build\<close>




























subsection \<open>What the two bundles carry over\<close>





text \<open>\<open>build\<close> leaves the module's \<open>defaultBuildOptions\<close> with the merged options.\<close>

lemma build_assigns_defaults:
  "fst (build L defaults b debugMode fs0) = assign defaults (thisBuildOptions defaults b)"
  by (simp add: build_def mergedOptions_def Let_def)





text \<open>
  The application with the pages \<open>index\<close> and \<open>apiary\<close>: the API manifest holds the route
  \<open>/apiary\<close>, so \<open>build\<close> calls \<open>buildApiLambda\<close>, whose copy of the directory \<open>pages/api\<close>
  fails, as there is no such directory.
\<close>

lemma build_fails_on_apiary:
  "(case snd (build apiaryLib exampleDefaults exampleBuilder False exampleFs) of
      Inl (ENOENT p) \<Rightarrow> p = [''app'', ''.next'', ''serverless'', ''pages'', ''api'']
    | _ \<Rightarrow> False)"
  by code_simp

section \<open>Properties of the cache-behaviour descriptor\<close>





lemma sanitiseInputs_keys: "map fst (sanitiseInputs url cfg) = map fst cfg"
  by (induction cfg) (auto simp: sanitiseInputs_def)












text \<open>
  The modelled handling of the user configuration yields, for every row of the test table,
  the configuration the test expects.
\<close>

lemma sanitiseInputs_table:
  "list_all (\<lambda>row. sanitiseInputs testBucketUrl (fst row) = snd row) customInputsTable"
  by code_simp




lemma joinWith_sublist: "x \<in> set xs \<Longrightarrow> sublist x (joinWith sep xs)"
proof (induction sep xs rule: joinWith.induct)
  case (1 sep)
  then show ?case by simp
next
  case (2 sep y)
  then show ?case by simp
next
  case (3 sep y z zs)
  show ?case
  proof (cases "x = y")
    case True
    then show ?thesis by (simp add: sublist_append_rightI)
  next
    case False
    then have "sublist x (joinWith sep (z # zs))" using 3 by simp
    then obtain ps ss where "joinWith sep (z # zs) = ps @ x @ ss"
      by (auto simp: sublist_def)
    then have "joinWith sep (y # z # zs) = (y @ sep @ ps) @ x @ ss" by simp
    then show ?thesis unfolding sublist_def by blast
  qed
qed

text \<open>
  C8. For every user configuration with a custom path that has no corresponding route in
  the compiled manifest (static, dynamic or API), the generation of the descriptor fails
  with a validation error whose message contains that path, after the words the test
  expects. In particular so for the path \<open>some-invalid-page-route\<close>.
\<close>

theorem generate_rejects_unknown_path:
  assumes "p \<in> set (customPaths cfg)" and "\<not> hasRoute regexTest M p"
  shows "\<exists>msg. generate regexTest arn url M cfg = Inl (ValidationError msg)
           \<and> sublist p msg
           \<and> sublist (''Could not find next.js pages for '' @ [CHR 0x22]) msg"
proof -
  let ?still = "filter (\<lambda>p. \<not> hasRoute regexTest M p) (customPaths cfg)"
  let ?pre = "''CloudFront input failed validation. Could not find next.js pages for '' @ [CHR 0x22]"
  let ?msg = "?pre @ joinWith '','' ?still @ [CHR 0x22]"
  have mem: "p \<in> set ?still" using assms by simp
  then have ne: "?still \<noteq> []" by (metis empty_iff empty_set)
  have run: "generate regexTest arn url M cfg = Inl (ValidationError ?msg)"
    using ne by (simp add: generate_def validatePathPatterns_def Let_def)
  from joinWith_sublist [OF mem, of "'',''"] obtain ps ss where
    "joinWith '','' ?still = ps @ p @ ss" by (auto simp: sublist_def)
  then have "?msg = (?pre @ ps) @ p @ (ss @ [CHR 0x22])" by simp
  then have 1: "sublist p ?msg" unfolding sublist_def by blast
  have "?msg = ''CloudFront input failed validation. ''
                @ (''Could not find next.js pages for '' @ [CHR 0x22])
                @ (joinWith '','' ?still @ [CHR 0x22])"
    by simp
  then have 2: "sublist (''Could not find next.js pages for '' @ [CHR 0x22]) ?msg"
    unfolding sublist_def by blast
  from run 1 2 show ?thesis by blast
qed

theorem generate_rejects_unknown_path_witness:
  "validationMessage (generate noMatch testArn testBucketUrl termsManifests invalidInput)
     = ''CloudFront input failed validation. Could not find next.js pages for ''
       @ [CHR 0x22] @ ''some-invalid-page-route'' @ [CHR 0x22]
   \<and> sublist ''some-invalid-page-route''
        (validationMessage (generate noMatch testArn testBucketUrl termsManifests invalidInput))"
proof -
  have p: "''some-invalid-page-route'' \<in> set (customPaths invalidInput)"
    by code_simp
  have r: "\<not> hasRoute noMatch termsManifests ''some-invalid-page-route''"
    by code_simp
  from generate_rejects_unknown_path [OF p r, of testArn testBucketUrl] obtain msg where
    run: "generate noMatch testArn testBucketUrl termsManifests invalidInput
            = Inl (ValidationError msg)"
    and sub: "sublist ''some-invalid-page-route'' msg"
    by blast
  have m: "validationMessage (generate noMatch testArn testBucketUrl termsManifests invalidInput) = msg"
    using run by (simp add: validationMessage_def)
  have e: "validationMessage (generate noMatch testArn testBucketUrl termsManifests invalidInput)
     = ''CloudFront input failed validation. Could not find next.js pages for ''
       @ [CHR 0x22] @ ''some-invalid-page-route'' @ [CHR 0x22]"
    by code_simp
  show ?thesis using e sub unfolding m by simp
qed

end
